theory Spec2Isabelle
  imports Main "HOL-Library.AList" "HOL-Library.Sublist"
begin

section \<open>JavaScript values\<close>

text \<open>
  The values that flow through \<^verbatim>\<open>createRequestHandler\<close> and \<^verbatim>\<open>parseParams\<close>:
  JSON data, thrown values, configuration options. Numbers are the integers (HTTP status
  codes, JSON integers); an object is its list of own enumerable properties in insertion
  order; an \<^verbatim>\<open>Error\<close> instance is the object holding its \<^verbatim>\<open>message\<close> (as an
  ordinary property: the handler hands every error to the error formatter before it
  serialises it). Function values are not part of the value model: the callbacks of the
  configuration are fields of the configuration record below.
\<close>

datatype jsval =
    JUndefined
  | JNull
  | JBool bool
  | JNum int
  | JStr string
  | JArr "jsval list"
  | JObj "(string \<times> jsval) list"

text \<open>Truthiness, as \<^verbatim>\<open>if (v)\<close>, \<^verbatim>\<open>!v\<close>, \<^verbatim>\<open>v ? a : b\<close>, \<^verbatim>\<open>v || w\<close> and \<^verbatim>\<open>v && w\<close> test it.\<close>

fun js_truthy :: "jsval \<Rightarrow> bool" where
  "js_truthy JUndefined = False"
| "js_truthy JNull = False"
| "js_truthy (JBool b) = b"
| "js_truthy (JNum n) = (n \<noteq> 0)"
| "js_truthy (JStr s) = (s \<noteq> [])"
| "js_truthy (JArr xs) = True"
| "js_truthy (JObj ps) = True"

definition js_or :: "jsval \<Rightarrow> jsval \<Rightarrow> jsval" where
  "js_or a b = (if js_truthy a then a else b)"

fun js_typeof :: "jsval \<Rightarrow> string" where
  "js_typeof JUndefined = ''undefined''"
| "js_typeof JNull = ''object''"
| "js_typeof (JBool b) = ''boolean''"
| "js_typeof (JNum n) = ''number''"
| "js_typeof (JStr s) = ''string''"
| "js_typeof (JArr xs) = ''object''"
| "js_typeof (JObj ps) = ''object''"

text \<open>
  A TypeError the engine throws. The wording of the message is the engine's; the handler
  passes it on as it is.
\<close>

definition TypeError :: "string \<Rightarrow> jsval" where
  "TypeError msg = JObj [(''message'', JStr msg)]"

text \<open>
  Property read \<^verbatim>\<open>v.k\<close>, for the property names the handler reads (\<^verbatim>\<open>query\<close>,
  \<^verbatim>\<open>variables\<close>, \<^verbatim>\<open>operationName\<close>, \<^verbatim>\<open>data\<close>, \<^verbatim>\<open>errors\<close>, \<^verbatim>\<open>status\<close>,
  \<^verbatim>\<open>error\<close>, \<^verbatim>\<open>headers\<close>): it throws a TypeError on \<^verbatim>\<open>undefined\<close> and
  \<^verbatim>\<open>null\<close>, and a primitive or an array has none of these properties.
  \<open>Inl\<close> is a thrown value, \<open>Inr\<close> a normal result.
\<close>

fun js_get :: "jsval \<Rightarrow> string \<Rightarrow> jsval + jsval" where
  "js_get JUndefined k = Inl (TypeError (''Cannot read properties of undefined (reading '' @ k @ '')''))"
| "js_get JNull k = Inl (TypeError (''Cannot read properties of null (reading '' @ k @ '')''))"
| "js_get (JObj ps) k = Inr (case map_of ps k of Some v \<Rightarrow> v | None \<Rightarrow> JUndefined)"
| "js_get v k = Inr JUndefined"

text \<open>\<^verbatim>\<open>String.prototype.includes\<close>: the argument occurs as a contiguous substring.\<close>

fun js_includes :: "string \<Rightarrow> string \<Rightarrow> bool" where
  "js_includes [] sub = (sub = [])"
| "js_includes (c # cs) sub = (prefix sub (c # cs) \<or> js_includes cs sub)"

text \<open>
  Decimal rendering of an array index or a number: every integer is written in full
  (JavaScript switches to exponent notation from 1e21 on; the handler's numbers are
  status codes and small JSON integers).
\<close>

definition digit :: "nat \<Rightarrow> char" where
  "digit d = char_of (48 + d)"

function show_nat :: "nat \<Rightarrow> string" where
  "show_nat n = (if n < 10 then [digit n] else show_nat (n div 10) @ [digit (n mod 10)])"
  by pat_completeness auto
termination
  by (relation "measure id") auto

declare show_nat.simps [simp del]

definition show_int :: "int \<Rightarrow> string" where
  "show_int i = (if i < 0 then CHR ''-'' # show_nat (nat (- i)) else show_nat (nat i))"

text \<open>
  The own enumerable properties an object spread \<^verbatim>\<open>{...target, ...v}\<close> copies from
  \<open>v\<close>, and the spread itself: a key already present keeps its position and takes the new
  value, a new key is appended. (The index keys a spread string or array brings are listed
  after the keys already present; JavaScript enumerates them first. The headers of a
  response are looked up by name.)
\<close>

fun own_props :: "jsval \<Rightarrow> (string \<times> jsval) list" where
  "own_props (JObj ps) = ps"
| "own_props (JArr xs) = zip (map show_nat [0..<length xs]) xs"
| "own_props (JStr s) = zip (map show_nat [0..<length s]) (map (\<lambda>c. JStr [c]) s)"
| "own_props v = []"

definition spread :: "(string \<times> jsval) list \<Rightarrow> jsval \<Rightarrow> (string \<times> jsval) list" where
  "spread target v = fold (\<lambda>(k, x). AList.update k x) (own_props v) target"

section \<open>JSON.stringify\<close>

text \<open>
  The built-in serialiser the handler calls on its response envelope, after the ECMAScript
  definition: a property whose value is \<^verbatim>\<open>undefined\<close> is left out of an object, an
  \<^verbatim>\<open>undefined\<close> array element is written \<^verbatim>\<open>null\<close>, and a non-empty gap (the third
  argument, a number of spaces) puts every member on a line of its own.
\<close>

definition hex_digit :: "nat \<Rightarrow> char" where
  "hex_digit d = (if d < 10 then char_of (48 + d) else char_of (87 + d))"

definition escape_char :: "char \<Rightarrow> string" where
  "escape_char c =
     (if c = CHR 0x22 then [CHR 0x5C, CHR 0x22]
      else if c = CHR 0x5C then [CHR 0x5C, CHR 0x5C]
      else if c = CHR 0x08 then [CHR 0x5C, CHR ''b'']
      else if c = CHR 0x09 then [CHR 0x5C, CHR ''t'']
      else if c = CHR 0x0A then [CHR 0x5C, CHR ''n'']
      else if c = CHR 0x0C then [CHR 0x5C, CHR ''f'']
      else if c = CHR 0x0D then [CHR 0x5C, CHR ''r'']
      else if of_char c < (32::nat)
        then [CHR 0x5C, CHR ''u'', CHR ''0'', CHR ''0'',
              hex_digit (of_char c div 16), hex_digit (of_char c mod 16)]
      else [c])"

definition quote :: "string \<Rightarrow> string" where
  "quote s = CHR 0x22 # concat (map escape_char s) @ [CHR 0x22]"

fun join :: "string \<Rightarrow> string list \<Rightarrow> string" where
  "join sep [] = []"
| "join sep [x] = x"
| "join sep (x # y # ys) = x @ sep @ join sep (y # ys)"

definition wrap :: "string \<Rightarrow> string \<Rightarrow> string \<Rightarrow> string \<Rightarrow> string list \<Rightarrow> string" where
  "wrap l r gap ind partial =
     (if partial = [] then l @ r
      else if gap = [] then l @ join '','' partial @ r
      else l @ [CHR 0x0A] @ ind @ gap @ join ('','' @ [CHR 0x0A] @ ind @ gap) partial
             @ [CHR 0x0A] @ ind @ r)"

fun serialize :: "string \<Rightarrow> string \<Rightarrow> jsval \<Rightarrow> string option" where
  "serialize gap ind JUndefined = None"
| "serialize gap ind JNull = Some ''null''"
| "serialize gap ind (JBool b) = Some (if b then ''true'' else ''false'')"
| "serialize gap ind (JNum n) = Some (show_int n)"
| "serialize gap ind (JStr s) = Some (quote s)"
| "serialize gap ind (JArr xs) =
     Some (wrap ''['' '']'' gap ind
       (map (\<lambda>x. case serialize gap (ind @ gap) x of None \<Rightarrow> ''null'' | Some s \<Rightarrow> s) xs))"
| "serialize gap ind (JObj ps) =
     Some (wrap ''{'' ''}'' gap ind
       (concat (map (\<lambda>(k, v). case serialize gap (ind @ gap) v of
                        None \<Rightarrow> []
                      | Some s \<Rightarrow> [quote k @ '':'' @ (if gap = [] then [] else '' '') @ s]) ps)))"

definition JSON_stringify :: "jsval \<Rightarrow> nat \<Rightarrow> string" where
  "JSON_stringify v n =
     (case serialize (replicate n CHR '' '') [] v of Some s \<Rightarrow> s | None \<Rightarrow> ''undefined'')"

section \<open>Requests, documents and the platform\<close>

text \<open>
  What the handler reads of the incoming \<^verbatim>\<open>Request\<close>: its method, the search
  parameters of its URL (\<^verbatim>\<open>new URL(request.url).searchParams\<close>, in order), the value of
  \<^verbatim>\<open>request.headers.get("Content-Type")\<close> (\<open>None\<close> is \<^verbatim>\<open>null\<close>: no such header)
  and the text of its body.
\<close>

record request =
  http_method :: string
  searchParams :: "(string \<times> string) list"
  contentType :: "string option"
  body_text :: string

text \<open>
  \<^verbatim>\<open>JSON.parse\<close> and the decoding of a form-encoded text by \<^verbatim>\<open>new URLSearchParams\<close>
  are the platform's: parameters of the model.
\<close>

record platform =
  JSON_parse :: "string \<Rightarrow> jsval + jsval"
  URLSearchParams :: "string \<Rightarrow> (string \<times> string) list"

text \<open>\<^verbatim>\<open>URLSearchParams.get\<close>: the first value of the name, or \<^verbatim>\<open>null\<close>.\<close>

definition searchParams_get :: "(string \<times> string) list \<Rightarrow> string \<Rightarrow> string option" where
  "searchParams_get ps k = map_of ps k"

definition nullable :: "string option \<Rightarrow> jsval" where
  "nullable p = (case p of None \<Rightarrow> JNull | Some s \<Rightarrow> JStr s)"

text \<open>The string a parameter holds when it is truthy: present and not empty.\<close>

definition truthy_param :: "string option \<Rightarrow> string option" where
  "truthy_param p = (case p of None \<Rightarrow> None | Some s \<Rightarrow> if s = [] then None else Some s)"

text \<open>
  A parsed document, as far as the handler looks into it: its definitions, and of an
  operation definition the operation type and the name.
\<close>

datatype operation_type = OpQuery | OpMutation | OpSubscription

fun operation_string :: "operation_type \<Rightarrow> string" where
  "operation_string OpQuery = ''query''"
| "operation_string OpMutation = ''mutation''"
| "operation_string OpSubscription = ''subscription''"

datatype definition_node =
    OperationDefinition (operation: operation_type) (name_value: "string option")
  | FragmentDefinition

type_synonym document = "definition_node list"

fun is_operation :: "definition_node \<Rightarrow> bool" where
  "is_operation (OperationDefinition ty nm) = True"
| "is_operation FragmentDefinition = False"

text \<open>
  Modelled from the spec: \<^verbatim>\<open>getOperationAST\<close> is imported from graphql-js and is not
  under src/. It returns the operation that would run: with no operation
  name (\<^verbatim>\<open>null\<close> or \<^verbatim>\<open>undefined\<close>) the sole operation of the document, and nothing
  when there are several or none; with an operation name the first operation of that name.
\<close>

fun getOperationAST_from ::
  "definition_node option \<Rightarrow> definition_node list \<Rightarrow> jsval \<Rightarrow> definition_node option" where
  "getOperationAST_from found [] operationName = found"
| "getOperationAST_from found (FragmentDefinition # ds) operationName =
     getOperationAST_from found ds operationName"
| "getOperationAST_from found (OperationDefinition ty nm # ds) operationName =
     (if operationName = JNull \<or> operationName = JUndefined then
        (case found of
           Some d \<Rightarrow> None
         | None \<Rightarrow> getOperationAST_from (Some (OperationDefinition ty nm)) ds operationName)
      else if (case nm of Some n \<Rightarrow> JStr n = operationName | None \<Rightarrow> False)
        then Some (OperationDefinition ty nm)
      else getOperationAST_from found ds operationName)"

definition getOperationAST :: "document \<Rightarrow> jsval \<Rightarrow> definition_node option" where
  "getOperationAST doc operationName = getOperationAST_from None doc operationName"

section \<open>Effects: thrown values and the calls made\<close>

text \<open>
  The arguments of the configured \<^verbatim>\<open>execute\<close> and \<^verbatim>\<open>extensions\<close> functions. The
  context value handed to \<^verbatim>\<open>execute\<close> is a value or the incoming request itself.
\<close>

datatype context_value = ContextValue jsval | RequestAsContext request

record execute_args =
  arg_schema :: jsval
  arg_document :: document
  arg_variableValues :: jsval
  arg_operationName :: jsval
  arg_rootValue :: jsval
  arg_contextValue :: context_value
  arg_fieldResolver :: jsval
  arg_typeResolver :: jsval

record extensions_args =
  ext_document :: document
  ext_variables :: jsval
  ext_operationName :: jsval
  ext_result :: jsval
  ext_context :: jsval

text \<open>
  What a run does besides returning: reading the request body and calling the engine's
  functions, in order.
\<close>

datatype event =
    BodyRead
  | ParseCall jsval
  | ValidateCall jsval document jsval
  | ExecuteCall execute_args
  | ExtensionsCall extensions_args

text \<open>
  A computation ends with a thrown value (\<open>Inl\<close>; for the handler, a rejected promise) or
  a result (\<open>Inr\<close>), and has made the calls of its trace. \<^verbatim>\<open>await\<close> of a promise is
  its outcome: a rejection is a throw.
\<close>

type_synonym 'a io = "(jsval + 'a) \<times> event list"

definition io_return :: "'a \<Rightarrow> 'a io" where
  "io_return x = (Inr x, [])"

definition io_throw :: "jsval \<Rightarrow> 'a io" where
  "io_throw e = (Inl e, [])"

definition io_lift :: "jsval + 'a \<Rightarrow> 'a io" where
  "io_lift outcome = (outcome, [])"

definition io_call :: "event \<Rightarrow> jsval + 'a \<Rightarrow> 'a io" where
  "io_call ev outcome = (outcome, [ev])"

definition io_bind :: "'a io \<Rightarrow> ('a \<Rightarrow> 'b io) \<Rightarrow> 'b io" where
  "io_bind m f =
     (case m of
        (Inl e, t) \<Rightarrow> (Inl e, t)
      | (Inr x, t) \<Rightarrow> (case f x of (r, t') \<Rightarrow> (r, t @ t')))"

definition io_catch :: "'a io \<Rightarrow> (jsval \<Rightarrow> 'a io) \<Rightarrow> 'a io" where
  "io_catch m h =
     (case m of
        (Inl e, t) \<Rightarrow> (case h e of (r, t') \<Rightarrow> (r, t @ t'))
      | (Inr x, t) \<Rightarrow> (Inr x, t))"

fun map_throwing :: "('a \<Rightarrow> jsval + 'b) \<Rightarrow> 'a list \<Rightarrow> jsval + 'b list" where
  "map_throwing f [] = Inr []"
| "map_throwing f (x # xs) =
     (case f x of
        Inl e \<Rightarrow> Inl e
      | Inr y \<Rightarrow> (case map_throwing f xs of Inl e \<Rightarrow> Inl e | Inr ys \<Rightarrow> Inr (y # ys)))"

text \<open>\<^verbatim>\<open>v.map(f)\<close>: only an array has the method.\<close>

definition array_map :: "(jsval \<Rightarrow> jsval + jsval) \<Rightarrow> jsval \<Rightarrow> jsval + jsval" where
  "array_map f v =
     (case v of
        JArr xs \<Rightarrow> (case map_throwing f xs of Inl e \<Rightarrow> Inl e | Inr ys \<Rightarrow> Inr (JArr ys))
      | _ \<Rightarrow> Inl (TypeError ''map is not a function''))"

section \<open>parseParams\<close>

record ParsedParams =
  query :: jsval
  variables :: jsval
  operationName :: jsval

text \<open>
  \<^verbatim>\<open>request.method === "POST" && request.headers.get("Content-Type").includes(sub)\<close>:
  the header is read only for a POST, and \<^verbatim>\<open>includes\<close> on the \<^verbatim>\<open>null\<close> of a
  missing header throws.
\<close>

definition post_with_type :: "request \<Rightarrow> string \<Rightarrow> bool io" where
  "post_with_type request sub =
     (if http_method request = ''POST'' then
        (case contentType request of
           None \<Rightarrow> io_throw (TypeError ''Cannot read properties of null (reading includes)'')
         | Some ct \<Rightarrow> io_return (js_includes ct sub))
      else io_return False)"

text \<open>The three ways a body is read.\<close>

definition json_body :: "platform \<Rightarrow> request \<Rightarrow> jsval io" where
  "json_body pf request = io_call BodyRead (JSON_parse pf (body_text request))"

definition form_body :: "platform \<Rightarrow> request \<Rightarrow> jsval io" where
  "form_body pf request =
     io_bind (io_call BodyRead (Inr (body_text request))) (\<lambda>text.
       let bodySearch = URLSearchParams pf text in
       io_bind
         (case truthy_param (searchParams_get bodySearch ''variables'') of
            None \<Rightarrow> io_return (nullable (searchParams_get bodySearch ''variables''))
          | Some s \<Rightarrow> io_lift (JSON_parse pf s))
         (\<lambda>vars. io_return (JObj [
            (''query'', nullable (searchParams_get bodySearch ''query'')),
            (''variables'', vars),
            (''operationName'', nullable (searchParams_get bodySearch ''operationName''))])))"

definition graphql_body :: "request \<Rightarrow> jsval io" where
  "graphql_body request =
     io_bind (io_call BodyRead (Inr (body_text request))) (\<lambda>text.
       io_return (JObj [(''query'', JStr text)]))"

text \<open>The value of \<^verbatim>\<open>fromBody\<close> when the merge starts.\<close>

definition fromBody :: "platform \<Rightarrow> request \<Rightarrow> jsval io" where
  "fromBody pf request =
     io_bind (post_with_type request ''application/json'') (\<lambda>is_json.
       if is_json then json_body pf request
       else io_bind (post_with_type request ''application/x-www-form-urlencoded'') (\<lambda>is_form.
         if is_form then form_body pf request
         else io_bind (post_with_type request ''application/graphql'') (\<lambda>is_graphql.
           if is_graphql then graphql_body request
           else io_return (JObj []))))"

text \<open>\<^verbatim>\<open>a || b.k\<close>: the property is read only when \<open>a\<close> is falsy.\<close>

definition or_property :: "jsval \<Rightarrow> jsval \<Rightarrow> string \<Rightarrow> jsval io" where
  "or_property a b k = (if js_truthy a then io_return a else io_lift (js_get b k))"

definition merge_params :: "platform \<Rightarrow> (string \<times> string) list \<Rightarrow> jsval \<Rightarrow> ParsedParams io" where
  "merge_params pf fromURL from_body =
     io_bind (or_property (nullable (searchParams_get fromURL ''query'')) from_body ''query'') (\<lambda>q.
     io_bind
       (case truthy_param (searchParams_get fromURL ''variables'') of
          Some s \<Rightarrow> io_lift (JSON_parse pf s)
        | None \<Rightarrow>
            io_bind (io_lift (js_get from_body ''variables'')) (\<lambda>v.
              case v of
                JStr s \<Rightarrow> io_lift (JSON_parse pf s)
              | _ \<Rightarrow> io_return v))
       (\<lambda>vars.
     io_bind (or_property (nullable (searchParams_get fromURL ''operationName''))
                from_body ''operationName'') (\<lambda>opname.
       io_return \<lparr>query = q, variables = vars, operationName = opname\<rparr>)))"

definition parseParams :: "platform \<Rightarrow> request \<Rightarrow> ParsedParams io" where
  "parseParams pf request =
     io_catch
       (io_bind (fromBody pf request) (\<lambda>from_body.
          merge_params pf (searchParams request) from_body))
       (\<lambda>parseError. io_throw (JObj [(''status'', JNum 400), (''error'', parseError)]))"

section \<open>createRequestHandler\<close>

text \<open>
  The options of the handler. \<open>configContext\<close> is the option \<^verbatim>\<open>context\<close>; \<open>execute\<close>,
  \<open>parse\<close>, \<open>formatError\<close> and \<open>validate\<close> are the functions the options
  \<^verbatim>\<open>customExecuteFn\<close>, \<^verbatim>\<open>customParseFn\<close>, \<^verbatim>\<open>customFormatErrorFn\<close> and
  \<^verbatim>\<open>customValidateFn\<close> are bound to (graphql-js's by default; no \<open>validate\<close> in the
  lean handler). A function returns or throws; \<open>extensions\<close> and \<open>validate\<close> are
  \<open>None\<close> when \<^verbatim>\<open>undefined\<close>.
\<close>

record config =
  allowOrigins :: jsval
  configContext :: jsval
  pretty :: jsval
  validationRules :: jsval
  rootValue :: jsval
  fieldResolver :: jsval
  typeResolver :: jsval
  extensions :: "(extensions_args \<Rightarrow> jsval + jsval) option"
  execute :: "execute_args \<Rightarrow> jsval + jsval"
  parse :: "jsval \<Rightarrow> jsval + document"
  formatError :: "jsval \<Rightarrow> jsval + jsval"
  validate :: "(jsval \<Rightarrow> document \<Rightarrow> jsval \<Rightarrow> jsval + jsval list) option"

text \<open>
  The \<^verbatim>\<open>Response\<close> the handler constructs: the status and headers of its init object
  and the body text.
\<close>

record response =
  status :: jsval
  headers :: "(string \<times> jsval) list"
  body :: string

definition baseHeaders :: "config \<Rightarrow> (string \<times> jsval) list" where
  "baseHeaders cfg =
     (if js_truthy (allowOrigins cfg)
      then AList.update ''Access-Control-Allow-Origin'' (allowOrigins cfg)
             [(''Content-Type'', JStr ''application/json'')]
      else [(''Content-Type'', JStr ''application/json'')])"

definition indentation :: "config \<Rightarrow> nat" where
  "indentation cfg = (if js_truthy (pretty cfg) then 2 else 0)"

text \<open>The response of the preflight branch.\<close>

definition preflight_response :: "config \<Rightarrow> response" where
  "preflight_response cfg =
     \<lparr>status = JNum 204,
      headers = [(''Allow'', JStr ''OPTIONS, GET, POST''),
                 (''Access-Control-Allow-Methods'', JStr ''OPTIONS, GET, POST''),
                 (''Access-Control-Allow-Origin'', allowOrigins cfg)],
      body = []\<rparr>"

text \<open>The GET guard: a GET may only run a query.\<close>

definition get_guard :: "request \<Rightarrow> document \<Rightarrow> jsval \<Rightarrow> unit io" where
  "get_guard request doc operation_name =
     (if http_method request = ''GET'' then
        (case getOperationAST doc operation_name of
           None \<Rightarrow> io_return ()
         | Some d \<Rightarrow>
             if js_truthy (JStr (operation_string (operation d)))
                \<and> operation_string (operation d) \<noteq> ''query''
             then io_throw (JObj [
                    (''status'', JNum 405),
                    (''error'', JStr ''Can only perform a mutation operation from a POST request.''),
                    (''headers'', JObj [(''Allow'', JStr ''POST'')])])
             else io_return ())
      else io_return ())"

definition validate_step :: "jsval \<Rightarrow> config \<Rightarrow> document \<Rightarrow> unit io" where
  "validate_step schema cfg doc =
     (case validate cfg of
        None \<Rightarrow> io_return ()
      | Some f \<Rightarrow>
          io_bind (io_call (ValidateCall schema doc (validationRules cfg))
                     (f schema doc (validationRules cfg))) (\<lambda>validationErrors.
            if length validationErrors > 0
            then io_throw (JObj [(''status'', JNum 400), (''error'', JArr validationErrors)])
            else io_return ()))"

text \<open>\<^verbatim>\<open>localContext || context || request\<close>.\<close>

definition context_choice :: "jsval \<Rightarrow> config \<Rightarrow> request \<Rightarrow> context_value" where
  "context_choice localContext cfg request =
     (if js_truthy localContext then ContextValue localContext
      else if js_truthy (configContext cfg) then ContextValue (configContext cfg)
      else RequestAsContext request)"

definition execute_step ::
  "jsval \<Rightarrow> config \<Rightarrow> request \<Rightarrow> jsval \<Rightarrow> ParsedParams \<Rightarrow> document \<Rightarrow> jsval io" where
  "execute_step schema cfg request localContext params doc =
     (let args = \<lparr>arg_schema = schema,
                  arg_document = doc,
                  arg_variableValues = variables params,
                  arg_operationName = operationName params,
                  arg_rootValue = rootValue cfg,
                  arg_contextValue = context_choice localContext cfg request,
                  arg_fieldResolver = fieldResolver cfg,
                  arg_typeResolver = typeResolver cfg\<rparr>
      in io_call (ExecuteCall args) (execute cfg args))"

definition extensions_step :: "config \<Rightarrow> ParsedParams \<Rightarrow> document \<Rightarrow> jsval \<Rightarrow> jsval io" where
  "extensions_step cfg params doc result =
     (case extensions cfg of
        None \<Rightarrow> io_return JUndefined
      | Some f \<Rightarrow>
          (let args = \<lparr>ext_document = doc,
                       ext_variables = variables params,
                       ext_operationName = operationName params,
                       ext_result = result,
                       ext_context = configContext cfg\<rparr>
           in io_call (ExtensionsCall args) (f args)))"

text \<open>
  The response for an execution result: the envelope
  \<^verbatim>\<open>{errors: result.errors && result.errors.map(formatError), data: result.data,
  extensions: extensionsResult}\<close> serialised, and the status chosen on \<^verbatim>\<open>result.data\<close>.
\<close>

definition success_response :: "config \<Rightarrow> jsval \<Rightarrow> jsval \<Rightarrow> response io" where
  "success_response cfg result extensionsResult =
     io_bind (io_lift (js_get result ''errors'')) (\<lambda>errors.
     io_bind (if js_truthy errors then io_lift (array_map (formatError cfg) errors)
              else io_return errors) (\<lambda>formatted.
     io_bind (io_lift (js_get result ''data'')) (\<lambda>data.
       io_return
         \<lparr>status = (if js_truthy data then JNum 200 else JNum 500),
          headers = baseHeaders cfg,
          body = JSON_stringify
                   (JObj [(''errors'', formatted), (''data'', data),
                          (''extensions'', extensionsResult)])
                   (indentation cfg)\<rparr>)))"

text \<open>
  The \<^verbatim>\<open>catch\<close> block. Destructuring the thrown value reads its three properties and
  throws a TypeError on \<^verbatim>\<open>undefined\<close> and \<^verbatim>\<open>null\<close>; nothing catches what this block
  throws.
\<close>

definition failure_response :: "config \<Rightarrow> jsval \<Rightarrow> response io" where
  "failure_response cfg e =
     io_bind (io_lift (js_get e ''status'')) (\<lambda>e_status.
     io_bind (io_lift (js_get e ''error'')) (\<lambda>e_error.
     io_bind (io_lift (js_get e ''headers'')) (\<lambda>e_headers.
       let reason = js_or e_error e;
           items = (case reason of
                      JArr xs \<Rightarrow> xs
                    | _ \<Rightarrow> [if js_typeof reason = ''object'' then reason
                            else JObj [(''message'', reason)]])
       in io_bind (io_lift (map_throwing (formatError cfg) items)) (\<lambda>formatted.
            io_return
              \<lparr>status = js_or e_status (JNum 500),
               headers = spread (spread [] (JObj (baseHeaders cfg))) e_headers,
               body = JSON_stringify (JObj [(''errors'', JArr formatted)])
                        (indentation cfg)\<rparr>))))"

text \<open>The \<^verbatim>\<open>try\<close> block.\<close>

definition try_block ::
  "platform \<Rightarrow> jsval \<Rightarrow> config \<Rightarrow> request \<Rightarrow> jsval \<Rightarrow> response io" where
  "try_block pf schema cfg request localContext =
     (if \<not> (http_method request = ''POST'' \<or> http_method request = ''GET'') then
        io_throw (JObj [
          (''headers'', JObj [(''Allow'', JStr ''OPTIONS, GET, POST'')]),
          (''status'', JNum 405),
          (''error'', JStr ''GraphQL only supports GET and POST requests.'')])
      else
        io_bind (parseParams pf request) (\<lambda>params.
          if \<not> js_truthy (query params) then
            io_throw (JObj [(''status'', JNum 400),
                            (''error'', JStr ''Must provide query string.'')])
          else
            io_bind
              (io_catch (io_call (ParseCall (query params)) (parse cfg (query params)))
                 (\<lambda>syntaxError.
                    io_throw (JObj [(''status'', JNum 400), (''error'', JArr [syntaxError])])))
              (\<lambda>doc.
            io_bind (get_guard request doc (operationName params)) (\<lambda>_.
            io_bind (validate_step schema cfg doc) (\<lambda>_.
            io_bind (execute_step schema cfg request localContext params doc) (\<lambda>result.
            io_bind (extensions_step cfg params doc result) (\<lambda>extensionsResult.
              success_response cfg result extensionsResult)))))))"

text \<open>
  The handler \<^verbatim>\<open>createRequestHandler(schema, options)\<close> returns, applied to a request
  and the per-call context. \<open>Inl\<close> is a rejection: a value thrown out of the handler.
\<close>

definition createRequestHandler ::
  "platform \<Rightarrow> jsval \<Rightarrow> config \<Rightarrow> request \<Rightarrow> jsval \<Rightarrow> response io" where
  "createRequestHandler pf schema cfg request localContext =
     (if http_method request = ''OPTIONS'' \<and> js_truthy (allowOrigins cfg) then
        io_return (preflight_response cfg)
      else
        io_catch (try_block pf schema cfg request localContext)
                 (\<lambda>e. failure_response cfg e))"

section \<open>A test handler\<close>

text \<open>
  The fixture the concrete runs below use, after the repository's test suite: an error
  formatter that keeps the \<^verbatim>\<open>message\<close>, \<^verbatim>\<open>locations\<close> and \<^verbatim>\<open>path\<close> of an error as
  graphql-js's \<^verbatim>\<open>formatError\<close> does and throws on a falsy error (the \<^verbatim>\<open>extensions\<close>
  of an error are not carried: the errors of the runs below have none), a parser that knows the documents of the tests,
  an executor for the test schema's \<^verbatim>\<open>test\<close> field, and a platform that decodes the
  texts the runs send.
\<close>

definition gqlFormatError :: "jsval \<Rightarrow> jsval + jsval" where
  "gqlFormatError e =
     (if \<not> js_truthy e
      then Inl (JObj [(''message'', JStr ''Received null or undefined error.'')])
      else case js_get e ''message'' of
        Inl x \<Rightarrow> Inl (JObj [(''message'', JStr ''Received null or undefined error.'')])
      | Inr m \<Rightarrow>
          Inr (JObj [
            (''message'', if m = JUndefined \<or> m = JNull
                          then JStr ''An unknown error occurred.'' else m),
            (''locations'', case js_get e ''locations'' of Inr v \<Rightarrow> v | Inl x \<Rightarrow> JUndefined),
            (''path'', case js_get e ''path'' of Inr v \<Rightarrow> v | Inl x \<Rightarrow> JUndefined)]))"

definition test_parse :: "jsval \<Rightarrow> jsval + document" where
  "test_parse q =
     (if q = JStr ''{test}'' then Inr [OperationDefinition OpQuery None]
      else if q = JStr ''mutation TestMutation { writeTest { test } }''
        then Inr [OperationDefinition OpMutation (Some ''TestMutation'')]
      else if q = JStr ''query TestQuery { test } mutation TestMutation { writeTest { test } }''
        then Inr [OperationDefinition OpQuery (Some ''TestQuery''),
                  OperationDefinition OpMutation (Some ''TestMutation'')]
      else Inl (JObj [(''message'', JStr ''Syntax Error: Unexpected Name.'')]))"

definition test_execute :: "execute_args \<Rightarrow> jsval + jsval" where
  "test_execute args = Inr (JObj [(''data'', JObj [(''test'', JStr ''Hello World'')])])"

definition test_config :: config where
  "test_config =
     \<lparr>allowOrigins = JUndefined, configContext = JUndefined, pretty = JBool False,
      validationRules = JArr [], rootValue = JUndefined, fieldResolver = JUndefined,
      typeResolver = JUndefined, extensions = None, execute = test_execute,
      parse = test_parse, formatError = gqlFormatError, validate = None\<rparr>"

definition TestSchema :: jsval where
  "TestSchema = JObj []"

definition test_platform :: platform where
  \<open>test_platform =
     \<lparr>JSON_parse = (\<lambda>s.
        if s = ''{"query":"{test}","operationName":"FromBody"}''
          then Inr (JObj [(''query'', JStr ''{test}''), (''operationName'', JStr ''FromBody'')])
        else if s = ''{"who":"Dolly"}'' then Inr (JObj [(''who'', JStr ''Dolly'')])
        else Inl (JObj [(''message'', JStr ''Unexpected end of JSON input'')])),
      URLSearchParams = (\<lambda>s. if s = ''query={test}'' then [(''query'', ''{test}'')] else [])\<rparr>\<close>

definition GET_request :: "(string \<times> string) list \<Rightarrow> request" where
  "GET_request ps = \<lparr>http_method = ''GET'', searchParams = ps, contentType = None, body_text = []\<rparr>"

definition POST_request :: "(string \<times> string) list \<Rightarrow> string option \<Rightarrow> string \<Rightarrow> request" where
  "POST_request ps ct b =
     \<lparr>http_method = ''POST'', searchParams = ps, contentType = ct, body_text = b\<rparr>"

section \<open>Basic facts\<close>

lemma io_bind_return: "io_bind (io_return x) f = f x"
  by (simp add: io_bind_def io_return_def split: prod.splits)

lemma io_bind_throw: "io_bind (io_throw e) f = io_throw e"
  by (simp add: io_bind_def io_throw_def)

lemma io_bind_lift_Inr: "io_bind (io_lift (Inr x)) f = f x"
  by (simp add: io_bind_def io_lift_def split: prod.splits)

lemma io_bind_lift_Inl: "io_bind (io_lift (Inl e)) f = io_throw e"
  by (simp add: io_bind_def io_lift_def io_throw_def)

lemma io_bind_Inr: "io_bind (Inr x, t) f = (fst (f x), t @ snd (f x))"
  by (simp add: io_bind_def split: prod.splits)

lemma io_bind_Inl: "io_bind (Inl e, t) f = (Inl e, t)"
  by (simp add: io_bind_def)

lemma io_catch_Inr: "io_catch (Inr x, t) h = (Inr x, t)"
  by (simp add: io_catch_def)

lemma io_catch_Inl: "io_catch (Inl e, t) h = (fst (h e), t @ snd (h e))"
  by (simp add: io_catch_def split: prod.splits)

lemma io_catch_return: "io_catch (io_return x) h = io_return x"
  by (simp add: io_catch_def io_return_def)

lemma io_catch_throw: "io_catch (io_throw e) h = h e"
  by (simp add: io_catch_def io_throw_def split: prod.splits)

lemmas io_simps =
  io_bind_return io_bind_throw io_bind_lift_Inr io_bind_lift_Inl io_bind_Inr io_bind_Inl
  io_catch_Inr io_catch_Inl io_catch_return io_catch_throw

lemma js_includes_sublist: "js_includes s sub \<longleftrightarrow> sublist sub s"
  by (induction s) (auto simp: sublist_Cons_right)

lemma map_throwing_total:
  "(\<forall>x\<in>set xs. \<exists>y. f x = Inr y) \<Longrightarrow> \<exists>ys. map_throwing f xs = Inr ys \<and> length ys = length xs"
  by (induction xs) auto

lemma spread_baseHeaders: "spread [] (JObj (baseHeaders cfg)) = baseHeaders cfg"
  by (simp add: baseHeaders_def spread_def)

lemma spread_baseHeaders_Allow:
  "spread (baseHeaders cfg) (JObj [(''Allow'', v)]) = baseHeaders cfg @ [(''Allow'', v)]"
  by (simp add: baseHeaders_def spread_def)

lemma failure_response_message:
  assumes "formatError cfg (JObj [(''message'', JStr msg)]) = Inr fe" and "msg \<noteq> []"
      and "map_of ps ''status'' = Some st" and "map_of ps ''error'' = Some (JStr msg)"
  shows "failure_response cfg (JObj ps) =
           (Inr \<lparr>status = js_or st (JNum 500),
                 headers = spread (baseHeaders cfg)
                             (case map_of ps ''headers'' of Some h \<Rightarrow> h | None \<Rightarrow> JUndefined),
                 body = JSON_stringify (JObj [(''errors'', JArr [fe])]) (indentation cfg)\<rparr>, [])"
  using assms
  by (simp add: failure_response_def io_simps js_or_def spread_baseHeaders io_return_def)

lemmas parseParams_eval =
  parseParams_def fromBody_def post_with_type_def io_simps merge_params_def or_property_def
  nullable_def searchParams_get_def truthy_param_def io_return_def io_lift_def io_throw_def
  io_call_def json_body_def form_body_def graphql_body_def

lemmas stringify_eval =
  JSON_stringify_def indentation_def wrap_def quote_def escape_char_def

lemma post_with_type_not_POST:
  "http_method request \<noteq> ''POST'' \<Longrightarrow> post_with_type request sub = io_return False"
  by (simp add: post_with_type_def)

lemma fromBody_not_POST:
  "http_method request \<noteq> ''POST'' \<Longrightarrow> fromBody pf request = io_return (JObj [])"
  by (simp add: fromBody_def post_with_type_not_POST io_bind_return)

lemma merge_params_no_events: "snd (merge_params pf fromURL fb) = []"
  by (auto simp: merge_params_def or_property_def io_bind_def io_return_def io_lift_def
      split: prod.splits sum.splits option.splits jsval.splits)

text \<open>
  The model of \<^verbatim>\<open>getOperationAST\<close> selects the operation as the spec words it: without an
  operation name the sole operation of the document, with a name the first operation that
  carries it.
\<close>

lemma getOperationAST_from_no_name:
  assumes "opname = JNull \<or> opname = JUndefined"
  shows "getOperationAST_from found ds opname =
           (case found of
              None \<Rightarrow> (case filter is_operation ds of [d] \<Rightarrow> Some d | _ \<Rightarrow> None)
            | Some d \<Rightarrow> (if filter is_operation ds = [] then Some d else None))"
  using assms
proof (induction found ds opname rule: getOperationAST_from.induct)
  case (3 found ty nm ds opname)
  then show ?case
    by (cases found; cases "filter is_operation ds") (auto split: list.splits)
qed (auto split: option.splits)

lemma getOperationAST_sole_operation:
  "opname = JNull \<or> opname = JUndefined \<Longrightarrow>
     getOperationAST doc opname = Some d \<longleftrightarrow> filter is_operation doc = [d]"
  by (auto simp: getOperationAST_def getOperationAST_from_no_name split: list.splits)

lemma getOperationAST_from_named:
  "getOperationAST_from None ds (JStr n) =
     find (\<lambda>d. is_operation d \<and> name_value d = Some n) ds"
proof (induction ds)
  case Nil
  show ?case by simp
next
  case (Cons a ds)
  then show ?case by (cases a) (auto split: option.splits)
qed

lemma getOperationAST_named:
  "getOperationAST doc (JStr n) = find (\<lambda>d. is_operation d \<and> name_value d = Some n) doc"
  by (simp add: getOperationAST_def getOperationAST_from_named)

text \<open>
  The calls a run makes: only \<^verbatim>\<open>parseParams\<close> reads the body, and the one call of
  \<^verbatim>\<open>execute\<close> is made with the resolved parameters and the chosen context.
\<close>

lemma io_bind_event:
  assumes "ev \<in> set (snd (io_bind m f))"
  shows "ev \<in> set (snd m) \<or> (\<exists>x. fst m = Inr x \<and> ev \<in> set (snd (f x)))"
  using assms by (auto simp: io_bind_def split: prod.splits sum.splits)

lemma io_catch_event:
  assumes "ev \<in> set (snd (io_catch m h))"
  shows "ev \<in> set (snd m) \<or> (\<exists>e. fst m = Inl e \<and> ev \<in> set (snd (h e)))"
  using assms by (auto simp: io_catch_def split: prod.splits sum.splits)

lemma no_events [simp]:
  "snd (io_return x) = []" "snd (io_throw e) = []" "snd (io_lift r) = []"
  by (simp_all add: io_return_def io_throw_def io_lift_def)

lemma post_with_type_events: "snd (post_with_type request sub) = []"
  by (simp add: post_with_type_def split: option.splits)

lemma fromBody_events: "set (snd (fromBody pf request)) \<subseteq> {BodyRead}"
  by (auto simp: fromBody_def json_body_def form_body_def graphql_body_def post_with_type_def
        io_bind_def io_call_def io_return_def io_throw_def io_lift_def Let_def
      split: prod.splits sum.splits option.splits if_splits)

lemma parseParams_events: "set (snd (parseParams pf request)) \<subseteq> {BodyRead}"
proof
  fix ev assume "ev \<in> set (snd (parseParams pf request))"
  then have "ev \<in> set (snd (io_bind (fromBody pf request)
                (\<lambda>from_body. merge_params pf (searchParams request) from_body)))"
    unfolding parseParams_def by (auto dest!: io_catch_event)
  then have "ev \<in> set (snd (fromBody pf request))"
    by (auto dest!: io_bind_event simp: merge_params_no_events)
  then show "ev \<in> {BodyRead}" using fromBody_events by blast
qed

lemma get_guard_events: "snd (get_guard request doc opname) = []"
  by (simp add: get_guard_def split: option.splits)

lemma validate_step_events:
  "ev \<in> set (snd (validate_step schema cfg doc)) \<Longrightarrow> ev = ValidateCall schema doc (validationRules cfg)"
  by (auto simp: validate_step_def io_bind_def io_call_def io_return_def io_throw_def
      split: option.splits prod.splits sum.splits if_splits)

lemma extensions_step_events:
  "ev \<in> set (snd (extensions_step cfg params doc result)) \<Longrightarrow> \<exists>a. ev = ExtensionsCall a"
  by (auto simp: extensions_step_def io_call_def Let_def split: option.splits)

lemma success_response_events: "snd (success_response cfg result ext) = []"
  by (auto simp: success_response_def io_bind_def io_lift_def io_return_def
      split: prod.splits sum.splits)

lemma failure_response_events: "snd (failure_response cfg e) = []"
  by (auto simp: failure_response_def io_bind_def io_lift_def io_return_def Let_def
      split: prod.splits sum.splits)

lemma execute_step_events:
  "ev \<in> set (snd (execute_step schema cfg request localContext params doc)) \<Longrightarrow>
     ev = ExecuteCall
       \<lparr>arg_schema = schema, arg_document = doc, arg_variableValues = variables params,
        arg_operationName = operationName params, arg_rootValue = rootValue cfg,
        arg_contextValue = context_choice localContext cfg request,
        arg_fieldResolver = fieldResolver cfg, arg_typeResolver = typeResolver cfg\<rparr>"
  by (simp add: execute_step_def io_call_def Let_def)

lemma execute_call_args:
  assumes "ExecuteCall args \<in> set (snd (createRequestHandler pf schema cfg request localContext))"
  shows "\<exists>params doc.
           fst (parseParams pf request) = Inr params
         \<and> args = \<lparr>arg_schema = schema, arg_document = doc,
                    arg_variableValues = variables params,
                    arg_operationName = operationName params, arg_rootValue = rootValue cfg,
                    arg_contextValue = context_choice localContext cfg request,
                    arg_fieldResolver = fieldResolver cfg,
                    arg_typeResolver = typeResolver cfg\<rparr>"
proof -
  from assms have "ExecuteCall args \<in> set (snd (try_block pf schema cfg request localContext))"
    by (auto simp: createRequestHandler_def failure_response_events dest!: io_catch_event
        split: if_splits)
  then have "ExecuteCall args \<in> set (snd (io_bind (parseParams pf request) (\<lambda>params.
          if \<not> js_truthy (query params) then
            io_throw (JObj [(''status'', JNum 400),
                            (''error'', JStr ''Must provide query string.'')])
          else
            io_bind
              (io_catch (io_call (ParseCall (query params)) (parse cfg (query params)))
                 (\<lambda>syntaxError.
                    io_throw (JObj [(''status'', JNum 400), (''error'', JArr [syntaxError])])))
              (\<lambda>doc.
            io_bind (get_guard request doc (operationName params)) (\<lambda>_.
            io_bind (validate_step schema cfg doc) (\<lambda>_.
            io_bind (execute_step schema cfg request localContext params doc) (\<lambda>result.
            io_bind (extensions_step cfg params doc result) (\<lambda>extensionsResult.
              success_response cfg result extensionsResult))))))))"
    by (simp add: try_block_def split: if_splits)
  then obtain params where p: "fst (parseParams pf request) = Inr params"
    and rest: "ExecuteCall args \<in> set (snd (
            io_bind
              (io_catch (io_call (ParseCall (query params)) (parse cfg (query params)))
                 (\<lambda>syntaxError.
                    io_throw (JObj [(''status'', JNum 400), (''error'', JArr [syntaxError])])))
              (\<lambda>doc.
            io_bind (get_guard request doc (operationName params)) (\<lambda>_.
            io_bind (validate_step schema cfg doc) (\<lambda>_.
            io_bind (execute_step schema cfg request localContext params doc) (\<lambda>result.
            io_bind (extensions_step cfg params doc result) (\<lambda>extensionsResult.
              success_response cfg result extensionsResult)))))))"
    using parseParams_events [of pf request]
    by (auto dest!: io_bind_event split: if_splits)
  from rest obtain doc where "ExecuteCall args \<in> set (snd (
            io_bind (get_guard request doc (operationName params)) (\<lambda>_.
            io_bind (validate_step schema cfg doc) (\<lambda>_.
            io_bind (execute_step schema cfg request localContext params doc) (\<lambda>result.
            io_bind (extensions_step cfg params doc result) (\<lambda>extensionsResult.
              success_response cfg result extensionsResult))))))"
    using io_bind_event [OF rest]
    by (auto simp: io_call_def io_catch_def io_throw_def split: sum.splits prod.splits)
  from io_bind_event [OF this]
  have "ExecuteCall args \<in> set (snd (
            io_bind (validate_step schema cfg doc) (\<lambda>_.
            io_bind (execute_step schema cfg request localContext params doc) (\<lambda>result.
            io_bind (extensions_step cfg params doc result) (\<lambda>extensionsResult.
              success_response cfg result extensionsResult)))))"
    by (auto simp: get_guard_events)
  from io_bind_event [OF this]
  have "ExecuteCall args \<in> set (snd (
            io_bind (execute_step schema cfg request localContext params doc) (\<lambda>result.
            io_bind (extensions_step cfg params doc result) (\<lambda>extensionsResult.
              success_response cfg result extensionsResult))))"
    by (auto dest: validate_step_events)
  from io_bind_event [OF this]
  have "ExecuteCall args \<in> set (snd (execute_step schema cfg request localContext params doc))
      \<or> (\<exists>result. ExecuteCall args \<in> set (snd (
            io_bind (extensions_step cfg params doc result) (\<lambda>extensionsResult.
              success_response cfg result extensionsResult))))"
    by auto
  moreover have False
    if "ExecuteCall args \<in> set (snd (
            io_bind (extensions_step cfg params doc result) (\<lambda>extensionsResult.
              success_response cfg result extensionsResult)))" for result
    using io_bind_event [OF that]
    by (auto dest: extensions_step_events simp: success_response_events)
  ultimately
  have "ExecuteCall args \<in> set (snd (execute_step schema cfg request localContext params doc))"
    by blast
  then show ?thesis using p by (auto dest!: execute_step_events)
qed

lemma test_run_trace:
  "snd (createRequestHandler test_platform TestSchema (test_config\<lparr>configContext := c\<rparr>)
          (GET_request [(''query'', ''{test}'')]) lc) =
     [ParseCall (JStr ''{test}''),
      ExecuteCall
        \<lparr>arg_schema = TestSchema, arg_document = [OperationDefinition OpQuery None],
         arg_variableValues = JUndefined, arg_operationName = JUndefined,
         arg_rootValue = JUndefined,
         arg_contextValue = context_choice lc (test_config\<lparr>configContext := c\<rparr>)
                              (GET_request [(''query'', ''{test}'')]),
         arg_fieldResolver = JUndefined, arg_typeResolver = JUndefined\<rparr>]"
  by (simp add: parseParams_eval createRequestHandler_def try_block_def get_guard_def
        validate_step_def execute_step_def extensions_step_def success_response_def
        getOperationAST_def test_config_def test_parse_def test_execute_def GET_request_def)

lemma parseParams_returns:
  assumes "parseParams pf request = (Inr params, t)"
  shows "\<exists>fb. fromBody pf request = (Inr fb, t)
             \<and> merge_params pf (searchParams request) fb = (Inr params, [])"
proof -
  obtain r t1 where fb: "fromBody pf request = (r, t1)" by (cases "fromBody pf request")
  show ?thesis
  proof (cases r)
    case (Inl e)
    then show ?thesis using assms fb
      by (simp add: parseParams_def io_simps io_throw_def)
  next
    case (Inr v)
    obtain r2 t2 where m: "merge_params pf (searchParams request) v = (r2, t2)"
      by (cases "merge_params pf (searchParams request) v")
    have "t2 = []" using merge_params_no_events [of pf "searchParams request" v] m by simp
    then show ?thesis using assms fb Inr m
      by (cases r2) (simp_all add: parseParams_def io_simps io_throw_def)
  qed
qed

lemma merge_params_fields:
  assumes "merge_params pf fromURL fb = (Inr params, t)"
  shows "(\<forall>s. truthy_param (searchParams_get fromURL ''query'') = Some s \<longrightarrow> query params = JStr s)
       \<and> (\<forall>s. truthy_param (searchParams_get fromURL ''variables'') = Some s \<longrightarrow>
              JSON_parse pf s = Inr (variables params))
       \<and> (\<forall>s. truthy_param (searchParams_get fromURL ''operationName'') = Some s \<longrightarrow>
              operationName params = JStr s)
       \<and> (truthy_param (searchParams_get fromURL ''query'') = None \<longrightarrow>
              js_get fb ''query'' = Inr (query params))
       \<and> (truthy_param (searchParams_get fromURL ''variables'') = None \<longrightarrow>
              (\<exists>v. js_get fb ''variables'' = Inr v
                 \<and> (case v of JStr s \<Rightarrow> JSON_parse pf s = Inr (variables params)
                            | _ \<Rightarrow> variables params = v)))
       \<and> (truthy_param (searchParams_get fromURL ''operationName'') = None \<longrightarrow>
              js_get fb ''operationName'' = Inr (operationName params))"
  using assms
  by (auto simp: merge_params_def or_property_def io_bind_def io_return_def io_lift_def
        truthy_param_def nullable_def
      split: prod.splits sum.splits option.splits if_splits jsval.splits)

section \<open>The status of an execution result\<close>

text \<open>
  C1. An execution result is an object whose \<^verbatim>\<open>data\<close> is an object, \<^verbatim>\<open>null\<close> or
  absent and whose \<^verbatim>\<open>errors\<close> is absent or a sequence of errors (which the error
  formatter formats). For every such result, whatever the extensions value, the response
  formatter returns a response; its status is 200 exactly when \<^verbatim>\<open>data\<close> is present and
  not \<^verbatim>\<open>null\<close>, errors or no errors, and 500 exactly when \<^verbatim>\<open>data\<close> is \<^verbatim>\<open>null\<close> or
  absent.
\<close>

theorem status_split_on_data:
  assumes res: "js_get result ''data'' = Inr d"
      and dat: "d = JUndefined \<or> d = JNull \<or> (\<exists>m. d = JObj m)"
      and err: "js_get result ''errors'' = Inr errors"
      and fmt: "errors = JUndefined
                \<or> (\<exists>es. errors = JArr es \<and> (\<forall>e\<in>set es. \<exists>v. formatError cfg e = Inr v))"
  shows "\<exists>r. success_response cfg result extensionsResult = (Inr r, [])
            \<and> (status r = JNum 200 \<longleftrightarrow> (\<exists>m. d = JObj m))
            \<and> (status r = JNum 500 \<longleftrightarrow> d = JNull \<or> d = JUndefined)"
proof -
  obtain formatted where f:
    "(if js_truthy errors then io_lift (array_map (formatError cfg) errors)
      else io_return errors) = (Inr formatted, [])"
  proof (cases "errors = JUndefined")
    case True
    then show ?thesis using that by (simp add: io_return_def)
  next
    case False
    then obtain es where es: "errors = JArr es" "\<forall>e\<in>set es. \<exists>v. formatError cfg e = Inr v"
      using fmt by auto
    then obtain ys where "map_throwing (formatError cfg) es = Inr ys"
      using map_throwing_total by blast
    then show ?thesis using that es by (simp add: array_map_def io_lift_def)
  qed
  show ?thesis
    using dat
    by (auto simp: success_response_def res err f io_bind_lift_Inr io_bind_Inr io_return_def)
qed

text \<open>
  A result with partial data and an error is answered 200, one with \<^verbatim>\<open>null\<close> data 500.
\<close>

theorem status_split_on_data_witness:
  "(\<exists>r. success_response test_config
           (JObj [(''data'', JObj [(''thrower'', JNull)]),
                  (''errors'', JArr [JObj [(''message'', JStr ''Throws!'')]])])
           JUndefined = (Inr r, []) \<and> status r = JNum 200)
   \<and> (\<exists>r. success_response test_config
           (JObj [(''data'', JNull),
                  (''errors'', JArr [JObj [(''message'', JStr ''Throws!'')]])])
           JUndefined = (Inr r, []) \<and> status r = JNum 500)"
proof -
  let ?errors = "JArr [JObj [(''message'', JStr ''Throws!'')]]"
  have fmt: "?errors = JUndefined
      \<or> (\<exists>es. ?errors = JArr es \<and> (\<forall>e\<in>set es. \<exists>v. formatError test_config e = Inr v))"
    by (simp add: test_config_def gqlFormatError_def)
  have partial: "\<exists>r. success_response test_config
           (JObj [(''data'', JObj [(''thrower'', JNull)]), (''errors'', ?errors)])
           JUndefined = (Inr r, []) \<and> status r = JNum 200"
    using status_split_on_data [where cfg = test_config and extensionsResult = JUndefined
          and result = "JObj [(''data'', JObj [(''thrower'', JNull)]), (''errors'', ?errors)]"
          and d = "JObj [(''thrower'', JNull)]" and errors = ?errors, OF _ _ _ fmt]
    by auto
  have no_data: "\<exists>r. success_response test_config
           (JObj [(''data'', JNull), (''errors'', ?errors)])
           JUndefined = (Inr r, []) \<and> status r = JNum 500"
    using status_split_on_data [where cfg = test_config and extensionsResult = JUndefined
          and result = "JObj [(''data'', JNull), (''errors'', ?errors)]"
          and d = JNull and errors = ?errors, OF _ _ _ fmt]
    by auto
  show ?thesis using partial no_data by blast
qed


text \<open>
  That response is the handler's: when every step before it returns, the handler returns
  what the formatter returns.
\<close>

lemma handler_returns_formatter_response:
  assumes "http_method request = ''POST'' \<or> http_method request = ''GET''"
      and "parseParams pf request = (Inr params, t1)"
      and "js_truthy (query params)"
      and "parse cfg (query params) = Inr doc"
      and "get_guard request doc (operationName params) = (Inr (), [])"
      and "validate_step schema cfg doc = (Inr (), t2)"
      and "execute_step schema cfg request localContext params doc = (Inr result, t3)"
      and "extensions_step cfg params doc result = (Inr extensionsResult, t4)"
      and "success_response cfg result extensionsResult = (Inr r, [])"
  shows "createRequestHandler pf schema cfg request localContext =
           (Inr r, t1 @ ParseCall (query params) # t2 @ t3 @ t4)"
proof -
  have "try_block pf schema cfg request localContext =
           (Inr r, t1 @ ParseCall (query params) # t2 @ t3 @ t4)"
    using assms by (auto simp: try_block_def io_simps io_call_def)
  then show ?thesis
    using assms(1) by (auto simp: createRequestHandler_def io_simps)
qed

section \<open>Unrecognised and missing content types\<close>

text \<open>
  C2. A POST request with no \<^verbatim>\<open>Content-Type\<close> header is not treated as one with an
  unrecognised header: \<^verbatim>\<open>headers.get\<close> is \<^verbatim>\<open>null\<close> and \<^verbatim>\<open>.includes\<close> throws inside
  \<^verbatim>\<open>parseParams\<close>, so the handler answers 400 with the TypeError as its error, not with
  "Must provide query string.", and it does so even when the URL supplies a query.
\<close>

theorem missing_content_type_throws:
  \<open>createRequestHandler test_platform TestSchema test_config
      (POST_request [] None []) JUndefined =
      (Inr \<lparr>status = JNum 400, headers = [(''Content-Type'', JStr ''application/json'')],
            body = ''{"errors":[{"message":"Cannot read properties of null (reading includes)"}]}''\<rparr>,
       [])
   \<and> createRequestHandler test_platform TestSchema test_config
      (POST_request [(''query'', ''{test}'')] None []) JUndefined =
      (Inr \<lparr>status = JNum 400, headers = [(''Content-Type'', JStr ''application/json'')],
            body = ''{"errors":[{"message":"Cannot read properties of null (reading includes)"}]}''\<rparr>,
       [])\<close>
  by (simp add: createRequestHandler_def try_block_def parseParams_eval failure_response_def
        TypeError_def js_or_def baseHeaders_def spread_def POST_request_def
        test_config_def test_platform_def gqlFormatError_def stringify_eval)

text \<open>
  With the header present and none of the three types contained in it, the body is not read
  and contributes the empty object; a URL that supplies no query (and whose
  \<^verbatim>\<open>variables\<close>, if any, decode) then gives the 400 "Must provide query string.", as in
  the test "handles plain POST text". Parameter resolution comes first: a URL
  \<^verbatim>\<open>variables\<close> value that does not decode is the error reported.
\<close>

lemma fromBody_unrecognized:
  assumes "http_method request = ''POST''" and "contentType request = Some ct"
      and "\<not> sublist ''application/json'' ct"
      and "\<not> sublist ''application/x-www-form-urlencoded'' ct"
      and "\<not> sublist ''application/graphql'' ct"
  shows "fromBody pf request = (Inr (JObj []), [])"
  using assms
  by (simp add: fromBody_def post_with_type_def io_simps js_includes_sublist io_return_def)

lemma merge_params_no_query:
  assumes "truthy_param (searchParams_get fromURL ''query'') = None"
      and "\<forall>s. truthy_param (searchParams_get fromURL ''variables'') = Some s \<longrightarrow>
                (\<exists>v. JSON_parse pf s = Inr v)"
  shows "\<exists>params. merge_params pf fromURL (JObj []) = (Inr params, [])
                \<and> \<not> js_truthy (query params)"
proof -
  have q: "or_property (nullable (searchParams_get fromURL ''query'')) (JObj []) ''query''
           = (Inr JUndefined, [])"
    using assms(1)
    by (auto simp: or_property_def nullable_def truthy_param_def io_lift_def
        split: option.splits if_splits)
  obtain o_name where o: "or_property (nullable (searchParams_get fromURL ''operationName''))
           (JObj []) ''operationName'' = (Inr o_name, [])"
    by (cases "js_truthy (nullable (searchParams_get fromURL ''operationName''))")
       (simp_all add: or_property_def io_lift_def io_return_def)
  obtain vars where v: "(case truthy_param (searchParams_get fromURL ''variables'') of
          Some s \<Rightarrow> io_lift (JSON_parse pf s)
        | None \<Rightarrow>
            io_bind (io_lift (js_get (JObj []) ''variables'')) (\<lambda>v.
              case v of
                JStr s \<Rightarrow> io_lift (JSON_parse pf s)
              | _ \<Rightarrow> io_return v)) = (Inr vars, [])"
    using assms(2)
    by (cases "truthy_param (searchParams_get fromURL ''variables'')")
       (auto simp: io_lift_def io_simps io_return_def)
  show ?thesis
    by (simp add: merge_params_def q v o io_simps io_return_def)
qed

lemma unrecognized_content_type:
  assumes "http_method request = ''POST''" and "contentType request = Some ct"
      and "\<not> sublist ''application/json'' ct"
      and "\<not> sublist ''application/x-www-form-urlencoded'' ct"
      and "\<not> sublist ''application/graphql'' ct"
  shows "fromBody pf request = (Inr (JObj []), [])
       \<and> (truthy_param (searchParams_get (searchParams request) ''query'') = None
            \<and> (\<forall>s. truthy_param (searchParams_get (searchParams request) ''variables'') = Some s
                      \<longrightarrow> (\<exists>v. JSON_parse pf s = Inr v))
          \<longrightarrow> try_block pf schema cfg request localContext =
                (Inl (JObj [(''status'', JNum 400),
                            (''error'', JStr ''Must provide query string.'')]), [])
              \<and> (\<forall>fe. formatError cfg (JObj [(''message'', JStr ''Must provide query string.'')])
                         = Inr fe \<longrightarrow>
                    createRequestHandler pf schema cfg request localContext =
                      (Inr \<lparr>status = JNum 400, headers = baseHeaders cfg,
                            body = JSON_stringify (JObj [(''errors'', JArr [fe])])
                                     (indentation cfg)\<rparr>, [])))"
proof (intro conjI impI allI)
  show fb: "fromBody pf request = (Inr (JObj []), [])"
    using assms by (rule fromBody_unrecognized)
  assume url: "truthy_param (searchParams_get (searchParams request) ''query'') = None
            \<and> (\<forall>s. truthy_param (searchParams_get (searchParams request) ''variables'') = Some s
                      \<longrightarrow> (\<exists>v. JSON_parse pf s = Inr v))"
  then obtain params where
    m: "merge_params pf (searchParams request) (JObj []) = (Inr params, [])"
    and q: "\<not> js_truthy (query params)"
    using merge_params_no_query by blast
  have pp: "parseParams pf request = (Inr params, [])"
    by (simp add: parseParams_def fb m io_simps)
  show tb: "try_block pf schema cfg request localContext =
                (Inl (JObj [(''status'', JNum 400),
                            (''error'', JStr ''Must provide query string.'')]), [])"
    using assms(1) q by (simp add: try_block_def pp io_simps io_throw_def)
  fix fe
  assume fe: "formatError cfg (JObj [(''message'', JStr ''Must provide query string.'')]) = Inr fe"
  show "createRequestHandler pf schema cfg request localContext =
          (Inr \<lparr>status = JNum 400, headers = baseHeaders cfg,
                body = JSON_stringify (JObj [(''errors'', JArr [fe])]) (indentation cfg)\<rparr>, [])"
    using assms(1)
    by (simp add: createRequestHandler_def tb io_simps failure_response_message [OF fe]
          js_or_def) (simp add: spread_def)
qed

lemma unrecognized_content_type_example:
  \<open>fromBody test_platform
      (POST_request [(''variables'', ''{"who":"Dolly"}'')] (Some ''text/plain'')
         ''query helloWho($who: String){ test(who: $who) }'') = (Inr (JObj []), [])
   \<and> createRequestHandler test_platform TestSchema test_config
      (POST_request [(''variables'', ''{"who":"Dolly"}'')] (Some ''text/plain'')
         ''query helloWho($who: String){ test(who: $who) }'') JUndefined =
      (Inr \<lparr>status = JNum 400, headers = [(''Content-Type'', JStr ''application/json'')],
            body = ''{"errors":[{"message":"Must provide query string."}]}''\<rparr>, [])\<close>
proof -
  let ?r = \<open>POST_request [(''variables'', ''{"who":"Dolly"}'')] (Some ''text/plain'')
         ''query helloWho($who: String){ test(who: $who) }''\<close>
  have m: "http_method ?r = ''POST''" and ct: "contentType ?r = Some ''text/plain''"
    by (simp_all add: POST_request_def)
  have no: "\<not> sublist ''application/json'' ''text/plain''"
       "\<not> sublist ''application/x-www-form-urlencoded'' ''text/plain''"
       "\<not> sublist ''application/graphql'' ''text/plain''"
    by (simp_all add: js_includes_sublist [symmetric])
  show ?thesis
    using unrecognized_content_type [OF m ct no, where pf = test_platform and cfg = test_config
        and schema = TestSchema and localContext = JUndefined]
    by (simp add: POST_request_def truthy_param_def searchParams_get_def test_platform_def)
       (simp add: test_config_def gqlFormatError_def baseHeaders_def stringify_eval)
qed

lemma malformed_url_variables_fail_first:
  \<open>createRequestHandler test_platform TestSchema test_config
      (POST_request [(''variables'', ''{'')] (Some ''text/plain'') ''{test}'') JUndefined =
      (Inr \<lparr>status = JNum 400, headers = [(''Content-Type'', JStr ''application/json'')],
            body = ''{"errors":[{"message":"Unexpected end of JSON input"}]}''\<rparr>, [])\<close>
  by (simp add: createRequestHandler_def try_block_def parseParams_eval failure_response_def
        TypeError_def js_or_def baseHeaders_def spread_def POST_request_def
        test_config_def test_platform_def gqlFormatError_def stringify_eval)

section \<open>Precedence of the URL over the body\<close>

text \<open>
  C3, as amended. Whenever \<^verbatim>\<open>parseParams\<close> resolves the parameters of a request, each of
  \<^verbatim>\<open>query\<close>, \<^verbatim>\<open>variables\<close> and \<^verbatim>\<open>operationName\<close> is taken from the URL when the
  URL value is truthy (present and not empty), decoded as JSON for \<^verbatim>\<open>variables\<close>, whatever
  the body holds; a field whose URL value is absent or empty is taken from the body, field by
  field; and the operation name \<^verbatim>\<open>execute\<close> is called with is the resolved one, so the
  URL's when that is not empty.
\<close>

theorem url_value_wins_when_truthy:
  assumes "parseParams pf request = (Inr params, t)"
  shows "(\<forall>s. truthy_param (searchParams_get (searchParams request) ''query'') = Some s \<longrightarrow>
              query params = JStr s)
       \<and> (\<forall>s. truthy_param (searchParams_get (searchParams request) ''variables'') = Some s \<longrightarrow>
              JSON_parse pf s = Inr (variables params))
       \<and> (\<forall>s. truthy_param (searchParams_get (searchParams request) ''operationName'') = Some s \<longrightarrow>
              operationName params = JStr s)
       \<and> (\<exists>from_body. fromBody pf request = (Inr from_body, t)
            \<and> (truthy_param (searchParams_get (searchParams request) ''query'') = None \<longrightarrow>
                  js_get from_body ''query'' = Inr (query params))
            \<and> (truthy_param (searchParams_get (searchParams request) ''variables'') = None \<longrightarrow>
                  (\<exists>v. js_get from_body ''variables'' = Inr v
                     \<and> (case v of JStr s \<Rightarrow> JSON_parse pf s = Inr (variables params)
                                | _ \<Rightarrow> variables params = v)))
            \<and> (truthy_param (searchParams_get (searchParams request) ''operationName'') = None \<longrightarrow>
                  js_get from_body ''operationName'' = Inr (operationName params)))
       \<and> (\<forall>schema cfg localContext args.
              ExecuteCall args
                \<in> set (snd (createRequestHandler pf schema cfg request localContext)) \<longrightarrow>
              arg_operationName args = operationName params)"
proof -
  from parseParams_returns [OF assms] obtain fb where
    fb: "fromBody pf request = (Inr fb, t)"
    and m: "merge_params pf (searchParams request) fb = (Inr params, [])"
    by blast
  note fields = merge_params_fields [OF m]
  have exec: "arg_operationName args = operationName params"
    if "ExecuteCall args \<in> set (snd (createRequestHandler pf schema cfg request localContext))"
    for schema cfg localContext args
    using execute_call_args [OF that] assms by auto
  have from_body: "\<exists>from_body. fromBody pf request = (Inr from_body, t)
            \<and> (truthy_param (searchParams_get (searchParams request) ''query'') = None \<longrightarrow>
                  js_get from_body ''query'' = Inr (query params))
            \<and> (truthy_param (searchParams_get (searchParams request) ''variables'') = None \<longrightarrow>
                  (\<exists>v. js_get from_body ''variables'' = Inr v
                     \<and> (case v of JStr s \<Rightarrow> JSON_parse pf s = Inr (variables params)
                                | _ \<Rightarrow> variables params = v)))
            \<and> (truthy_param (searchParams_get (searchParams request) ''operationName'') = None \<longrightarrow>
                  js_get from_body ''operationName'' = Inr (operationName params))"
    using fields fb by (intro exI [of _ fb]) simp
  have executed: "\<forall>schema cfg localContext args.
              ExecuteCall args
                \<in> set (snd (createRequestHandler pf schema cfg request localContext)) \<longrightarrow>
              arg_operationName args = operationName params"
    using exec by blast
  show ?thesis
    using fields from_body executed by simp
qed

theorem url_value_wins_when_truthy_witness:
  \<open>parseParams test_platform
      (POST_request [(''operationName'', ''FromURL''), (''variables'', ''{"who":"Dolly"}'')]
         (Some ''application/json'') ''{"query":"{test}","operationName":"FromBody"}'')
    = (Inr \<lparr>query = JStr ''{test}'', variables = JObj [(''who'', JStr ''Dolly'')],
            operationName = JStr ''FromURL''\<rparr>, [BodyRead])
   \<and> fromBody test_platform
      (POST_request [(''operationName'', ''FromURL''), (''variables'', ''{"who":"Dolly"}'')]
         (Some ''application/json'') ''{"query":"{test}","operationName":"FromBody"}'')
    = (Inr (JObj [(''query'', JStr ''{test}''), (''operationName'', JStr ''FromBody'')]),
       [BodyRead])
   \<and> JSON_parse test_platform ''{"who":"Dolly"}'' = Inr (JObj [(''who'', JStr ''Dolly'')])\<close>
proof -
  let ?r = \<open>POST_request [(''operationName'', ''FromURL''), (''variables'', ''{"who":"Dolly"}'')]
         (Some ''application/json'') ''{"query":"{test}","operationName":"FromBody"}''\<close>
  have pp: "parseParams test_platform ?r
    = (Inr \<lparr>query = JStr ''{test}'', variables = JObj [(''who'', JStr ''Dolly'')],
            operationName = JStr ''FromURL''\<rparr>, [BodyRead])"
    by (simp add: parseParams_eval POST_request_def test_platform_def)
  show ?thesis
    using url_value_wins_when_truthy [OF pp] pp
    by (simp add: truthy_param_def searchParams_get_def POST_request_def)
       (simp add: fromBody_def post_with_type_def json_body_def io_simps io_return_def
          io_call_def test_platform_def)
qed

text \<open>
  C3 as stated fails for a parameter the URL supplies empty: with
  \<^verbatim>\<open>?query=&operationName=\<close> and a JSON body that names both, the body's values are
  taken.
\<close>

theorem empty_url_value_counterexample:
  \<open>parseParams test_platform
      (POST_request [(''query'', []), (''operationName'', [])]
         (Some ''application/json'') ''{"query":"{test}","operationName":"FromBody"}'')
    = (Inr \<lparr>query = JStr ''{test}'', variables = JUndefined,
            operationName = JStr ''FromBody''\<rparr>, [BodyRead])\<close>
  by (simp add: parseParams_eval POST_request_def test_platform_def)

section \<open>The GET guard\<close>

text \<open>
  C4. For every GET request whose parameters resolve with a query that parses to a
  document: when the operation that would run (\<^verbatim>\<open>getOperationAST\<close> of the document and
  the operation name) is not a query, the \<^verbatim>\<open>try\<close> block fails right after the parse with
  status 405, the message "Can only perform a mutation operation from a POST request." and
  the header \<^verbatim>\<open>Allow: POST\<close>, and the handler answers 405 with the base headers and
  \<^verbatim>\<open>Allow: POST\<close> and the formatted message as its only error; when no single operation
  can be determined the guard does not fire.
\<close>

theorem get_mutation_guard:
  assumes "http_method request = ''GET''"
      and "parseParams pf request = (Inr params, t)"
      and "js_truthy (query params)"
      and "parse cfg (query params) = Inr doc"
  shows "(\<forall>d. getOperationAST doc (operationName params) = Some d \<and> operation d \<noteq> OpQuery \<longrightarrow>
            try_block pf schema cfg request localContext =
              (Inl (JObj [(''status'', JNum 405),
                          (''error'', JStr ''Can only perform a mutation operation from a POST request.''),
                          (''headers'', JObj [(''Allow'', JStr ''POST'')])]),
               t @ [ParseCall (query params)])
          \<and> (\<forall>fe. formatError cfg
                     (JObj [(''message'',
                             JStr ''Can only perform a mutation operation from a POST request.'')])
                   = Inr fe \<longrightarrow>
                createRequestHandler pf schema cfg request localContext =
                  (Inr \<lparr>status = JNum 405,
                        headers = baseHeaders cfg @ [(''Allow'', JStr ''POST'')],
                        body = JSON_stringify (JObj [(''errors'', JArr [fe])]) (indentation cfg)\<rparr>,
                   t @ [ParseCall (query params)])))
       \<and> (getOperationAST doc (operationName params) = None \<longrightarrow>
            get_guard request doc (operationName params) = (Inr (), []))"
proof (intro conjI allI impI)
  show "get_guard request doc (operationName params) = (Inr (), [])"
    if "getOperationAST doc (operationName params) = None"
    using that assms(1) by (simp add: get_guard_def io_return_def)
next
  fix d
  assume d: "getOperationAST doc (operationName params) = Some d \<and> operation d \<noteq> OpQuery"
  then have g: "get_guard request doc (operationName params) =
      io_throw (JObj [(''status'', JNum 405),
                  (''error'', JStr ''Can only perform a mutation operation from a POST request.''),
                  (''headers'', JObj [(''Allow'', JStr ''POST'')])])"
    using assms(1) by (cases "operation d") (simp_all add: get_guard_def)
  show tb: "try_block pf schema cfg request localContext =
              (Inl (JObj [(''status'', JNum 405),
                          (''error'', JStr ''Can only perform a mutation operation from a POST request.''),
                          (''headers'', JObj [(''Allow'', JStr ''POST'')])]),
               t @ [ParseCall (query params)])"
    using assms by (simp add: try_block_def io_simps io_call_def g io_throw_def)
  fix fe
  assume fe: "formatError cfg
                     (JObj [(''message'',
                             JStr ''Can only perform a mutation operation from a POST request.'')])
                   = Inr fe"
  show "createRequestHandler pf schema cfg request localContext =
                  (Inr \<lparr>status = JNum 405,
                        headers = baseHeaders cfg @ [(''Allow'', JStr ''POST'')],
                        body = JSON_stringify (JObj [(''errors'', JArr [fe])]) (indentation cfg)\<rparr>,
                   t @ [ParseCall (query params)])"
    using assms(1)
    by (simp add: createRequestHandler_def tb io_simps failure_response_message [OF fe]
          js_or_def spread_baseHeaders_Allow)
qed

text \<open>
  The scenario of the spec: \<^verbatim>\<open>GET ?query=mutation TestMutation { writeTest { test } }\<close>
  is answered 405 with \<^verbatim>\<open>Allow: POST\<close>; two operations and no operation name pass the
  guard.
\<close>

theorem get_mutation_guard_witness:
  \<open>createRequestHandler test_platform TestSchema test_config
     (GET_request [(''query'', ''mutation TestMutation { writeTest { test } }'')]) JUndefined =
     (Inr \<lparr>status = JNum 405,
           headers = [(''Content-Type'', JStr ''application/json''), (''Allow'', JStr ''POST'')],
           body = ''{"errors":[{"message":"Can only perform a mutation operation from a POST request."}]}''\<rparr>,
      [ParseCall (JStr ''mutation TestMutation { writeTest { test } }'')])
   \<and> get_guard
       (GET_request [(''query'', ''query TestQuery { test } mutation TestMutation { writeTest { test } }'')])
       [OperationDefinition OpQuery (Some ''TestQuery''),
        OperationDefinition OpMutation (Some ''TestMutation'')]
       JUndefined = (Inr (), [])\<close>
proof -
  let ?q1 = "''mutation TestMutation { writeTest { test } }''"
  let ?q2 = "''query TestQuery { test } mutation TestMutation { writeTest { test } }''"
  have m: "http_method (GET_request ps) = ''GET''" for ps
    by (simp add: GET_request_def)
  have pp: "parseParams test_platform (GET_request [(''query'', q)]) =
      (Inr \<lparr>query = JStr q, variables = JUndefined, operationName = JUndefined\<rparr>, [])"
    if "q \<noteq> []" for q
    using that by (simp add: parseParams_eval GET_request_def)
  have p1: "parse test_config (query \<lparr>query = JStr ?q1, variables = JUndefined,
      operationName = JUndefined\<rparr>) = Inr [OperationDefinition OpMutation (Some ''TestMutation'')]"
    by (simp add: test_config_def test_parse_def)
  have p2: "parse test_config (query \<lparr>query = JStr ?q2, variables = JUndefined,
      operationName = JUndefined\<rparr>) = Inr [OperationDefinition OpQuery (Some ''TestQuery''),
        OperationDefinition OpMutation (Some ''TestMutation'')]"
    by (simp add: test_config_def test_parse_def)
  have fires: "createRequestHandler test_platform TestSchema test_config
     (GET_request [(''query'', ?q1)]) JUndefined =
     (Inr \<lparr>status = JNum 405,
           headers = baseHeaders test_config @ [(''Allow'', JStr ''POST'')],
           body = JSON_stringify (JObj [(''errors'', JArr [JObj [
              (''message'', JStr ''Can only perform a mutation operation from a POST request.''),
              (''locations'', JUndefined), (''path'', JUndefined)]])]) (indentation test_config)\<rparr>,
      [ParseCall (JStr ?q1)])"
    using get_mutation_guard [OF m pp _ p1, where schema = TestSchema and localContext = JUndefined]
    by (simp add: getOperationAST_def) (simp add: test_config_def gqlFormatError_def)
  have silent: "get_guard (GET_request [(''query'', ?q2)])
       [OperationDefinition OpQuery (Some ''TestQuery''),
        OperationDefinition OpMutation (Some ''TestMutation'')] JUndefined = (Inr (), [])"
    using get_mutation_guard [OF m pp _ p2, where schema = TestSchema and localContext = JUndefined]
    by (simp add: getOperationAST_def)
  show ?thesis
    using fires silent
    by (simp add: baseHeaders_def test_config_def stringify_eval)
qed

section \<open>The catch block\<close>

text \<open>
  C5. A thrown \<^verbatim>\<open>undefined\<close> or \<^verbatim>\<open>null\<close> is propagated to the caller: when the
  configured \<^verbatim>\<open>execute\<close> throws \<^verbatim>\<open>undefined\<close> (or returns a promise rejected with no
  reason), the destructuring \<^verbatim>\<open>const { status, error, headers } = e\<close> of the \<^verbatim>\<open>catch\<close>
  block throws a TypeError that nothing catches, and the handler rejects instead of
  returning a response.
\<close>

theorem thrown_undefined_escapes:
  "fst (createRequestHandler test_platform TestSchema
          (test_config\<lparr>execute := (\<lambda>args. Inl JUndefined)\<rparr>)
          (GET_request [(''query'', ''{test}'')]) JUndefined)
   = Inl (JObj [(''message'', JStr ''Cannot read properties of undefined (reading status)'')])"
  by (simp add: createRequestHandler_def try_block_def parseParams_eval get_guard_def
        validate_step_def execute_step_def getOperationAST_def failure_response_def
        TypeError_def test_config_def test_parse_def GET_request_def)

text \<open>
  For every other thrown value the \<^verbatim>\<open>catch\<close> block returns a response, as long as the
  error formatter returns: the status is the thrown value's \<^verbatim>\<open>status\<close> when that is
  truthy and 500 otherwise, and the headers are the base headers overwritten by the thrown
  value's \<^verbatim>\<open>headers\<close>. So the handler rejects only when a stage throws \<^verbatim>\<open>undefined\<close>
  or \<^verbatim>\<open>null\<close>, or the error formatter itself throws.
\<close>

lemma js_get_total:
  assumes "e \<noteq> JUndefined" and "e \<noteq> JNull"
  obtains v where "js_get e k = Inr v"
  using assms by (cases e) auto

lemma failure_response_nullish:
  assumes "e = JUndefined \<or> e = JNull"
  shows "\<exists>x. failure_response cfg e = (Inl x, [])"
  using assms by (auto simp: failure_response_def io_simps io_throw_def)

lemma failure_response_returns:
  assumes "e \<noteq> JUndefined" and "e \<noteq> JNull"
      and "\<forall>x. \<exists>y. formatError cfg x = Inr y"
  shows "\<exists>st hd b. js_get e ''status'' = Inr st \<and> js_get e ''headers'' = Inr hd
           \<and> failure_response cfg e =
               (Inr \<lparr>status = js_or st (JNum 500),
                     headers = spread (baseHeaders cfg) hd, body = b\<rparr>, [])"
proof -
  obtain st where st: "js_get e ''status'' = Inr st" using assms(1,2) by (rule js_get_total)
  obtain er where er: "js_get e ''error'' = Inr er" using assms(1,2) by (rule js_get_total)
  obtain hd where hd: "js_get e ''headers'' = Inr hd" using assms(1,2) by (rule js_get_total)
  define items where "items = (case js_or er e of
                      JArr xs \<Rightarrow> xs
                    | _ \<Rightarrow> [if js_typeof (js_or er e) = ''object'' then js_or er e
                            else JObj [(''message'', js_or er e)]])"
  obtain ys where ys: "map_throwing (formatError cfg) items = Inr ys"
    using map_throwing_total [of items "formatError cfg"] assms(3) by blast
  have "failure_response cfg e =
      (Inr \<lparr>status = js_or st (JNum 500), headers = spread (baseHeaders cfg) hd,
            body = JSON_stringify (JObj [(''errors'', JArr ys)]) (indentation cfg)\<rparr>, [])"
    using ys unfolding items_def
    by (simp add: failure_response_def st er hd io_simps Let_def spread_baseHeaders io_return_def)
  then show ?thesis using st hd by blast
qed

lemma handler_returns_a_response:
  assumes "\<forall>x. \<exists>y. formatError cfg x = Inr y"
      and "\<forall>e. fst (try_block pf schema cfg request localContext) = Inl e \<longrightarrow>
                e \<noteq> JUndefined \<and> e \<noteq> JNull"
  shows "\<exists>r. fst (createRequestHandler pf schema cfg request localContext) = Inr r"
proof (cases "http_method request = ''OPTIONS'' \<and> js_truthy (allowOrigins cfg)")
  case True
  then show ?thesis by (simp add: createRequestHandler_def io_return_def)
next
  case False
  obtain out t where tb: "try_block pf schema cfg request localContext = (out, t)"
    by (cases "try_block pf schema cfg request localContext")
  show ?thesis
  proof (cases out)
    case (Inl e)
    then have "e \<noteq> JUndefined" "e \<noteq> JNull" using assms(2) tb by auto
    from failure_response_returns [OF this assms(1)] obtain r where
      "failure_response cfg e = (Inr r, [])" by blast
    then show ?thesis using False tb Inl
      by (auto simp: createRequestHandler_def io_simps io_return_def)
  next
    case (Inr r)
    then show ?thesis using False tb
      by (auto simp: createRequestHandler_def io_simps io_return_def)
  qed
qed

section \<open>The preflight\<close>

text \<open>
  C6, as amended. For every OPTIONS request: when the configured \<^verbatim>\<open>allowOrigins\<close> is
  truthy (a non-empty string), the handler returns at once, with no body read and no engine
  call, status 204, an empty body and the headers \<^verbatim>\<open>Allow: OPTIONS, GET, POST\<close>,
  \<^verbatim>\<open>Access-Control-Allow-Methods: OPTIONS, GET, POST\<close> and
  \<^verbatim>\<open>Access-Control-Allow-Origin\<close> with the configured value; when \<^verbatim>\<open>allowOrigins\<close> is
  falsy (not configured, or the empty string) the request falls through to the method
  check and is answered 405.
\<close>

theorem preflight_when_origin_truthy:
  assumes "http_method request = ''OPTIONS''"
  shows "(js_truthy (allowOrigins cfg) \<longrightarrow>
            createRequestHandler pf schema cfg request localContext =
              (Inr \<lparr>status = JNum 204,
                    headers = [(''Allow'', JStr ''OPTIONS, GET, POST''),
                               (''Access-Control-Allow-Methods'', JStr ''OPTIONS, GET, POST''),
                               (''Access-Control-Allow-Origin'', allowOrigins cfg)],
                    body = []\<rparr>, []))
       \<and> (\<not> js_truthy (allowOrigins cfg) \<longrightarrow>
            (\<forall>fe. formatError cfg
                    (JObj [(''message'', JStr ''GraphQL only supports GET and POST requests.'')])
                  = Inr fe \<longrightarrow>
              createRequestHandler pf schema cfg request localContext =
                (Inr \<lparr>status = JNum 405,
                      headers = [(''Content-Type'', JStr ''application/json''),
                                 (''Allow'', JStr ''OPTIONS, GET, POST'')],
                      body = JSON_stringify (JObj [(''errors'', JArr [fe])]) (indentation cfg)\<rparr>,
                 [])))"
  using assms
  by (simp add: createRequestHandler_def preflight_response_def try_block_def io_simps
        failure_response_def js_or_def baseHeaders_def spread_def io_return_def io_throw_def)

theorem preflight_when_origin_truthy_witness:
  \<open>createRequestHandler test_platform TestSchema (test_config\<lparr>allowOrigins := JStr ''*''\<rparr>)
     \<lparr>http_method = ''OPTIONS'', searchParams = [(''query'', ''{test}'')],
      contentType = None, body_text = []\<rparr> JUndefined =
     (Inr \<lparr>status = JNum 204,
           headers = [(''Allow'', JStr ''OPTIONS, GET, POST''),
                      (''Access-Control-Allow-Methods'', JStr ''OPTIONS, GET, POST''),
                      (''Access-Control-Allow-Origin'', JStr ''*'')],
           body = []\<rparr>, [])
   \<and> createRequestHandler test_platform TestSchema test_config
     \<lparr>http_method = ''OPTIONS'', searchParams = [(''query'', ''{test}'')],
      contentType = None, body_text = []\<rparr> JUndefined =
     (Inr \<lparr>status = JNum 405,
           headers = [(''Content-Type'', JStr ''application/json''),
                      (''Allow'', JStr ''OPTIONS, GET, POST'')],
           body = ''{"errors":[{"message":"GraphQL only supports GET and POST requests."}]}''\<rparr>,
      [])\<close>
  using preflight_when_origin_truthy [where cfg = "test_config\<lparr>allowOrigins := JStr ''*''\<rparr>"
      and request = "\<lparr>http_method = ''OPTIONS'', searchParams = [(''query'', ''{test}'')],
      contentType = None, body_text = []\<rparr>" and pf = test_platform and schema = TestSchema
      and localContext = JUndefined]
    preflight_when_origin_truthy [where cfg = "test_config"
      and request = "\<lparr>http_method = ''OPTIONS'', searchParams = [(''query'', ''{test}'')],
      contentType = None, body_text = []\<rparr>" and pf = test_platform and schema = TestSchema
      and localContext = JUndefined]
  by (simp add: test_config_def gqlFormatError_def JSON_stringify_def indentation_def
        wrap_def quote_def escape_char_def)

text \<open>
  C6 as stated fails for a configured origin that is falsy: with \<^verbatim>\<open>allowOrigins: ""\<close> an
  OPTIONS request is answered 405, not 204.
\<close>

theorem preflight_empty_origin_counterexample:
  \<open>createRequestHandler test_platform TestSchema (test_config\<lparr>allowOrigins := JStr ''''\<rparr>)
     \<lparr>http_method = ''OPTIONS'', searchParams = [], contentType = None, body_text = []\<rparr>
     JUndefined =
     (Inr \<lparr>status = JNum 405,
           headers = [(''Content-Type'', JStr ''application/json''),
                      (''Allow'', JStr ''OPTIONS, GET, POST'')],
           body = ''{"errors":[{"message":"GraphQL only supports GET and POST requests."}]}''\<rparr>,
      [])\<close>
  by (simp add: createRequestHandler_def try_block_def io_simps
        failure_response_def js_or_def baseHeaders_def spread_def io_return_def io_throw_def
        test_config_def gqlFormatError_def JSON_stringify_def indentation_def
        wrap_def quote_def escape_char_def)

section \<open>Extensions\<close>

text \<open>
  C7. A resolved value that is not an object is not ignored: an \<^verbatim>\<open>extensions\<close>
  function that returns the string \<^verbatim>\<open>"meta"\<close> has it serialised as the \<^verbatim>\<open>extensions\<close>
  field of the envelope; the handler makes no test of the value.
\<close>

theorem extensions_string_is_serialized:
  \<open>fst (createRequestHandler test_platform TestSchema
          (test_config\<lparr>extensions := Some (\<lambda>args. Inr (JStr ''meta''))\<rparr>)
          (GET_request [(''query'', ''{test}'')]) JUndefined)
   = Inr \<lparr>status = JNum 200, headers = [(''Content-Type'', JStr ''application/json'')],
          body = ''{"data":{"test":"Hello World"},"extensions":"meta"}''\<rparr>\<close>
  by (simp add: createRequestHandler_def try_block_def parseParams_eval get_guard_def
        validate_step_def execute_step_def extensions_step_def success_response_def
        getOperationAST_def baseHeaders_def
        test_config_def test_parse_def test_execute_def GET_request_def stringify_eval)

text \<open>
  Only \<^verbatim>\<open>undefined\<close> is left out, by \<^verbatim>\<open>JSON.stringify\<close>: the case of the test "does
  nothing if extensions function does not return an object".
\<close>

lemma extensions_undefined_is_omitted:
  \<open>fst (createRequestHandler test_platform TestSchema
          (test_config\<lparr>extensions := Some (\<lambda>args. Inr JUndefined)\<rparr>)
          (GET_request [(''query'', ''{test}'')]) JUndefined)
   = Inr \<lparr>status = JNum 200, headers = [(''Content-Type'', JStr ''application/json'')],
          body = ''{"data":{"test":"Hello World"}}''\<rparr>\<close>
  by (simp add: createRequestHandler_def try_block_def parseParams_eval get_guard_def
        validate_step_def execute_step_def extensions_step_def success_response_def
        getOperationAST_def baseHeaders_def
        test_config_def test_parse_def test_execute_def GET_request_def stringify_eval)

section \<open>The context value\<close>

text \<open>
  C8, as amended. In every run of the handler, the \<^verbatim>\<open>contextValue\<close> of the call of
  \<^verbatim>\<open>execute\<close> is the per-call context when that is truthy, else the configured context
  when that is truthy, else the incoming request: exactly one of the three.
\<close>

theorem context_by_truthiness:
  assumes "ExecuteCall args \<in> set (snd (createRequestHandler pf schema cfg request localContext))"
  shows "(js_truthy localContext \<longrightarrow> arg_contextValue args = ContextValue localContext)
       \<and> (\<not> js_truthy localContext \<and> js_truthy (configContext cfg) \<longrightarrow>
            arg_contextValue args = ContextValue (configContext cfg))
       \<and> (\<not> js_truthy localContext \<and> \<not> js_truthy (configContext cfg) \<longrightarrow>
            arg_contextValue args = RequestAsContext request)"
  using execute_call_args [OF assms] by (auto simp: context_choice_def)

theorem context_by_truthiness_witness:
  "(\<exists>args. ExecuteCall args \<in> set (snd (createRequestHandler test_platform TestSchema
        (test_config\<lparr>configContext := JStr ''testValue''\<rparr>)
        (GET_request [(''query'', ''{test}'')]) (JObj [(''user'', JStr ''me'')])))
      \<and> arg_contextValue args = ContextValue (JObj [(''user'', JStr ''me'')]))
   \<and> (\<exists>args. ExecuteCall args \<in> set (snd (createRequestHandler test_platform TestSchema
        (test_config\<lparr>configContext := JStr ''testValue''\<rparr>)
        (GET_request [(''query'', ''{test}'')]) JUndefined))
      \<and> arg_contextValue args = ContextValue (JStr ''testValue''))
   \<and> (\<exists>args. ExecuteCall args \<in> set (snd (createRequestHandler test_platform TestSchema
        (test_config\<lparr>configContext := JUndefined\<rparr>)
        (GET_request [(''query'', ''{test}'')]) JUndefined))
      \<and> arg_contextValue args = RequestAsContext (GET_request [(''query'', ''{test}'')]))"
proof -
  have run: "\<exists>args. ExecuteCall args \<in> set (snd (createRequestHandler test_platform TestSchema
        (test_config\<lparr>configContext := c\<rparr>) (GET_request [(''query'', ''{test}'')]) lc))" for c lc
    by (simp add: test_run_trace)
  from run [of "JStr ''testValue''" "JObj [(''user'', JStr ''me'')]"] obtain a1 where
    a1: "ExecuteCall a1 \<in> set (snd (createRequestHandler test_platform TestSchema
        (test_config\<lparr>configContext := JStr ''testValue''\<rparr>)
        (GET_request [(''query'', ''{test}'')]) (JObj [(''user'', JStr ''me'')])))" ..
  from run [of "JStr ''testValue''" JUndefined] obtain a2 where
    a2: "ExecuteCall a2 \<in> set (snd (createRequestHandler test_platform TestSchema
        (test_config\<lparr>configContext := JStr ''testValue''\<rparr>)
        (GET_request [(''query'', ''{test}'')]) JUndefined))" ..
  from run [of JUndefined JUndefined] obtain a3 where
    a3: "ExecuteCall a3 \<in> set (snd (createRequestHandler test_platform TestSchema
        (test_config\<lparr>configContext := JUndefined\<rparr>)
        (GET_request [(''query'', ''{test}'')]) JUndefined))" ..
  have "arg_contextValue a1 = ContextValue (JObj [(''user'', JStr ''me'')])"
    using context_by_truthiness [OF a1] by simp
  moreover have "arg_contextValue a2 = ContextValue (JStr ''testValue'')"
    using context_by_truthiness [OF a2] by simp
  moreover have "arg_contextValue a3 = RequestAsContext (GET_request [(''query'', ''{test}'')])"
    using context_by_truthiness [OF a3] by simp
  ultimately show ?thesis using a1 a2 a3 by blast
qed

text \<open>
  C8 as stated fails for a supplied context that is falsy: a per-call context
  \<^verbatim>\<open>false\<close> gives way to the configured one, and a configured context \<^verbatim>\<open>0\<close> gives
  way to the request.
\<close>

theorem falsy_context_counterexample:
  "snd (createRequestHandler test_platform TestSchema
          (test_config\<lparr>configContext := JStr ''testValue''\<rparr>)
          (GET_request [(''query'', ''{test}'')]) (JBool False)) =
     [ParseCall (JStr ''{test}''),
      ExecuteCall
        \<lparr>arg_schema = TestSchema, arg_document = [OperationDefinition OpQuery None],
         arg_variableValues = JUndefined, arg_operationName = JUndefined,
         arg_rootValue = JUndefined,
         arg_contextValue = ContextValue (JStr ''testValue''),
         arg_fieldResolver = JUndefined, arg_typeResolver = JUndefined\<rparr>]
   \<and> snd (createRequestHandler test_platform TestSchema
          (test_config\<lparr>configContext := JNum 0\<rparr>)
          (GET_request [(''query'', ''{test}'')]) JUndefined) =
     [ParseCall (JStr ''{test}''),
      ExecuteCall
        \<lparr>arg_schema = TestSchema, arg_document = [OperationDefinition OpQuery None],
         arg_variableValues = JUndefined, arg_operationName = JUndefined,
         arg_rootValue = JUndefined,
         arg_contextValue = RequestAsContext (GET_request [(''query'', ''{test}'')]),
         arg_fieldResolver = JUndefined, arg_typeResolver = JUndefined\<rparr>]"
  by (simp add: test_run_trace context_choice_def)


section \<open>Recognising the content type\<close>

text \<open>
  C9. For every POST request with a \<^verbatim>\<open>Content-Type\<close> header, the header is recognised by
  containment, and the body is read and parsed under the type recognised. A value that
  contains \<^verbatim>\<open>application/json\<close> anywhere has the body read once and parsed as JSON: the
  body's contribution is the parsed value, or the parse error is thrown. One that does not
  but contains \<^verbatim>\<open>application/x-www-form-urlencoded\<close> has the body read once and decoded
  as a form: the contribution is the object of the form's \<^verbatim>\<open>query\<close>, \<^verbatim>\<open>variables\<close>
  (JSON-decoded when not empty) and \<^verbatim>\<open>operationName\<close>. One that contains neither but
  contains \<^verbatim>\<open>application/graphql\<close> has the body read once and its whole text as the
  \<^verbatim>\<open>query\<close>. So json has priority over form-urlencoded, which has priority over graphql.
\<close>

theorem content_type_by_containment:
  assumes "http_method request = ''POST''" and "contentType request = Some ct"
  shows "(sublist ''application/json'' ct \<longrightarrow>
            fromBody pf request = (JSON_parse pf (body_text request), [BodyRead]))
       \<and> (\<not> sublist ''application/json'' ct \<and> sublist ''application/x-www-form-urlencoded'' ct
            \<longrightarrow>
            fromBody pf request =
              (let bodySearch = URLSearchParams pf (body_text request) in
               case truthy_param (searchParams_get bodySearch ''variables'') of
                 None \<Rightarrow>
                   (Inr (JObj [
                      (''query'', nullable (searchParams_get bodySearch ''query'')),
                      (''variables'', nullable (searchParams_get bodySearch ''variables'')),
                      (''operationName'', nullable (searchParams_get bodySearch ''operationName''))]),
                    [BodyRead])
               | Some s \<Rightarrow>
                   (case JSON_parse pf s of
                      Inl e \<Rightarrow> (Inl e, [BodyRead])
                    | Inr v \<Rightarrow>
                        (Inr (JObj [
                           (''query'', nullable (searchParams_get bodySearch ''query'')),
                           (''variables'', v),
                           (''operationName'',
                              nullable (searchParams_get bodySearch ''operationName''))]),
                         [BodyRead]))))
       \<and> (\<not> sublist ''application/json'' ct \<and> \<not> sublist ''application/x-www-form-urlencoded'' ct
            \<and> sublist ''application/graphql'' ct
            \<longrightarrow>
            fromBody pf request = (Inr (JObj [(''query'', JStr (body_text request))]), [BodyRead]))"
proof (intro conjI impI)
  assume "sublist ''application/json'' ct"
  then show "fromBody pf request = (JSON_parse pf (body_text request), [BodyRead])"
    using assms
    by (simp add: fromBody_def post_with_type_def io_bind_return js_includes_sublist
          json_body_def io_call_def)
next
  assume "\<not> sublist ''application/json'' ct \<and> sublist ''application/x-www-form-urlencoded'' ct"
  then have fb: "fromBody pf request = form_body pf request"
    using assms
    by (simp add: fromBody_def post_with_type_def io_bind_return js_includes_sublist)
  show "fromBody pf request =
              (let bodySearch = URLSearchParams pf (body_text request) in
               case truthy_param (searchParams_get bodySearch ''variables'') of
                 None \<Rightarrow>
                   (Inr (JObj [
                      (''query'', nullable (searchParams_get bodySearch ''query'')),
                      (''variables'', nullable (searchParams_get bodySearch ''variables'')),
                      (''operationName'', nullable (searchParams_get bodySearch ''operationName''))]),
                    [BodyRead])
               | Some s \<Rightarrow>
                   (case JSON_parse pf s of
                      Inl e \<Rightarrow> (Inl e, [BodyRead])
                    | Inr v \<Rightarrow>
                        (Inr (JObj [
                           (''query'', nullable (searchParams_get bodySearch ''query'')),
                           (''variables'', v),
                           (''operationName'',
                              nullable (searchParams_get bodySearch ''operationName''))]),
                         [BodyRead])))"
    unfolding fb
    by (simp add: form_body_def Let_def io_simps io_call_def io_lift_def io_return_def
          io_throw_def split: option.splits sum.splits)
next
  assume "\<not> sublist ''application/json'' ct \<and> \<not> sublist ''application/x-www-form-urlencoded'' ct
            \<and> sublist ''application/graphql'' ct"
  then show "fromBody pf request = (Inr (JObj [(''query'', JStr (body_text request))]), [BodyRead])"
    using assms
    by (simp add: fromBody_def post_with_type_def io_bind_return js_includes_sublist
          graphql_body_def io_call_def io_simps io_return_def)
qed

text \<open>
  Headers with a charset suffix are recognised, and a header that names several types is
  parsed under the first of json, form-urlencoded, graphql that it contains.
\<close>

theorem content_type_by_containment_witness:
  \<open>fromBody test_platform
     (POST_request [] (Some ''application/json; charset=utf-8'')
        ''{"query":"{test}","operationName":"FromBody"}'')
   = (Inr (JObj [(''query'', JStr ''{test}''), (''operationName'', JStr ''FromBody'')]),
      [BodyRead])
   \<and> fromBody test_platform
     (POST_request [] (Some ''application/graphql, application/x-www-form-urlencoded, application/json'')
        ''{"who":"Dolly"}'')
   = (Inr (JObj [(''who'', JStr ''Dolly'')]), [BodyRead])
   \<and> fromBody test_platform
     (POST_request [] (Some ''application/graphql, application/x-www-form-urlencoded;charset=UTF-8'')
        ''query={test}'')
   = (Inr (JObj [(''query'', JStr ''{test}''), (''variables'', JNull),
                 (''operationName'', JNull)]), [BodyRead])
   \<and> fromBody test_platform
     (POST_request [] (Some ''application/graphql; charset=utf-8'') ''{test}'')
   = (Inr (JObj [(''query'', JStr ''{test}'')]), [BodyRead])\<close>
proof -
  have json: \<open>fromBody test_platform
     (POST_request [] (Some ''application/json; charset=utf-8'')
        ''{"query":"{test}","operationName":"FromBody"}'')
   = (Inr (JObj [(''query'', JStr ''{test}''), (''operationName'', JStr ''FromBody'')]),
      [BodyRead])\<close>
    using content_type_by_containment [where pf = test_platform
        and ct = "''application/json; charset=utf-8''"
        and request = \<open>POST_request [] (Some ''application/json; charset=utf-8'')
          ''{"query":"{test}","operationName":"FromBody"}''\<close>]
    by (simp add: js_includes_sublist [symmetric] POST_request_def test_platform_def)
  have first: \<open>fromBody test_platform
     (POST_request [] (Some ''application/graphql, application/x-www-form-urlencoded, application/json'')
        ''{"who":"Dolly"}'')
   = (Inr (JObj [(''who'', JStr ''Dolly'')]), [BodyRead])\<close>
    using content_type_by_containment [where pf = test_platform
        and ct = "''application/graphql, application/x-www-form-urlencoded, application/json''"
        and request = \<open>POST_request []
          (Some ''application/graphql, application/x-www-form-urlencoded, application/json'')
          ''{"who":"Dolly"}''\<close>]
    by (simp add: js_includes_sublist [symmetric] POST_request_def test_platform_def)
  have form: "fromBody test_platform
     (POST_request [] (Some ''application/graphql, application/x-www-form-urlencoded;charset=UTF-8'')
        ''query={test}'')
   = (Inr (JObj [(''query'', JStr ''{test}''), (''variables'', JNull),
                 (''operationName'', JNull)]), [BodyRead])"
    using content_type_by_containment [where pf = test_platform
        and ct = "''application/graphql, application/x-www-form-urlencoded;charset=UTF-8''"
        and request = "POST_request []
          (Some ''application/graphql, application/x-www-form-urlencoded;charset=UTF-8'')
          ''query={test}''"]
    by (simp add: js_includes_sublist [symmetric] POST_request_def test_platform_def
          truthy_param_def searchParams_get_def nullable_def)
  have graphql: "fromBody test_platform
     (POST_request [] (Some ''application/graphql; charset=utf-8'') ''{test}'')
   = (Inr (JObj [(''query'', JStr ''{test}'')]), [BodyRead])"
    using content_type_by_containment [where pf = test_platform
        and ct = "''application/graphql; charset=utf-8''"
        and request = "POST_request [] (Some ''application/graphql; charset=utf-8'') ''{test}''"]
    by (simp add: js_includes_sublist [symmetric] POST_request_def)
  show ?thesis using json first form graphql by simp
qed

section \<open>Requests that are not POST\<close>

text \<open>
  C10. For every request whose method is not POST, \<^verbatim>\<open>parseParams\<close> reads no body: the
  body contributes the empty object, the trace holds no body read, and the outcome is the
  same whatever the \<^verbatim>\<open>Content-Type\<close> header and the body of the request are.
\<close>

theorem non_POST_never_reads_body:
  assumes "http_method request \<noteq> ''POST''"
  shows "fromBody pf request = (Inr (JObj []), [])
       \<and> BodyRead \<notin> set (snd (parseParams pf request))
       \<and> parseParams pf (request\<lparr>contentType := ct, body_text := b\<rparr>) = parseParams pf request"
proof -
  have fb: "fromBody pf request = io_return (JObj [])"
    using assms by (rule fromBody_not_POST)
  have fb': "fromBody pf (request\<lparr>contentType := ct, body_text := b\<rparr>) = io_return (JObj [])"
    using assms by (simp add: fromBody_not_POST)
  have "snd (parseParams pf request) = []"
    using merge_params_no_events [of pf "searchParams request" "JObj []"]
    by (cases "merge_params pf (searchParams request) (JObj [])")
       (auto simp: parseParams_def fb io_bind_return io_catch_def io_throw_def split: sum.splits)
  then show ?thesis
    by (simp add: parseParams_def fb fb' io_bind_return) (simp add: io_return_def)
qed

theorem non_POST_never_reads_body_witness:
  \<open>BodyRead \<notin> set (snd (parseParams test_platform
      \<lparr>http_method = ''GET'', searchParams = [(''query'', ''{test}'')],
       contentType = Some ''application/json'',
       body_text = ''{"query":"{test}","operationName":"FromBody"}''\<rparr>))
   \<and> parseParams test_platform
      \<lparr>http_method = ''GET'', searchParams = [(''query'', ''{test}'')],
       contentType = Some ''application/json'',
       body_text = ''{"query":"{test}","operationName":"FromBody"}''\<rparr>
     = parseParams test_platform (GET_request [(''query'', ''{test}'')])
   \<and> parseParams test_platform (GET_request [(''query'', ''{test}'')])
     = (Inr \<lparr>query = JStr ''{test}'', variables = JUndefined, operationName = JUndefined\<rparr>, [])\<close>
proof -
  have get: "http_method (GET_request [(''query'', ''{test}'')]) \<noteq> ''POST''"
    by (simp add: GET_request_def)
  have "parseParams test_platform (GET_request [(''query'', ''{test}'')])
     = (Inr \<lparr>query = JStr ''{test}'', variables = JUndefined, operationName = JUndefined\<rparr>, [])"
    by (simp add: parseParams_def fromBody_def post_with_type_def GET_request_def io_simps
          merge_params_def or_property_def nullable_def searchParams_get_def truthy_param_def
          io_return_def io_lift_def)
  then show ?thesis
    using non_POST_never_reads_body [OF get, where pf = test_platform
        and ct = "Some ''application/json''"
        and b = \<open>''{"query":"{test}","operationName":"FromBody"}''\<close>]
    by (simp add: GET_request_def)
qed

section \<open>Scenarios of the test suite\<close>

text \<open>
  The model on runs of the repository's tests: "allows GET with query param", "handles
  unsupported HTTP methods" and "supports pretty printing".
\<close>

lemma scenario_GET_test:
  \<open>createRequestHandler test_platform TestSchema test_config
      (GET_request [(''query'', ''{test}'')]) JUndefined =
     (Inr \<lparr>status = JNum 200, headers = [(''Content-Type'', JStr ''application/json'')],
           body = ''{"data":{"test":"Hello World"}}''\<rparr>,
      [ParseCall (JStr ''{test}''),
       ExecuteCall
         \<lparr>arg_schema = TestSchema, arg_document = [OperationDefinition OpQuery None],
          arg_variableValues = JUndefined, arg_operationName = JUndefined,
          arg_rootValue = JUndefined,
          arg_contextValue = RequestAsContext (GET_request [(''query'', ''{test}'')]),
          arg_fieldResolver = JUndefined, arg_typeResolver = JUndefined\<rparr>])\<close>
  by (simp add: createRequestHandler_def try_block_def parseParams_eval get_guard_def
        validate_step_def execute_step_def extensions_step_def success_response_def
        getOperationAST_def baseHeaders_def context_choice_def
        test_config_def test_parse_def test_execute_def GET_request_def stringify_eval)

lemma scenario_PUT:
  \<open>createRequestHandler test_platform TestSchema test_config
      \<lparr>http_method = ''PUT'', searchParams = [(''query'', ''{test}'')], contentType = None,
       body_text = []\<rparr> JUndefined =
     (Inr \<lparr>status = JNum 405,
           headers = [(''Content-Type'', JStr ''application/json''),
                      (''Allow'', JStr ''OPTIONS, GET, POST'')],
           body = ''{"errors":[{"message":"GraphQL only supports GET and POST requests."}]}''\<rparr>,
      [])\<close>
  by (simp add: createRequestHandler_def try_block_def io_simps failure_response_def
        js_or_def baseHeaders_def spread_def io_return_def io_throw_def
        test_config_def gqlFormatError_def stringify_eval)

lemma scenario_pretty:
  "fst (createRequestHandler test_platform TestSchema (test_config\<lparr>pretty := JBool True\<rparr>)
      (GET_request [(''query'', ''{test}'')]) JUndefined) =
     Inr \<lparr>status = JNum 200, headers = [(''Content-Type'', JStr ''application/json'')],
          body = ''{'' @ [CHR 0x0A]
               @ ''  '' @ quote ''data'' @ '': {'' @ [CHR 0x0A]
               @ ''    '' @ quote ''test'' @ '': '' @ quote ''Hello World'' @ [CHR 0x0A]
               @ ''  }'' @ [CHR 0x0A]
               @ ''}''\<rparr>"
  by (simp add: createRequestHandler_def try_block_def parseParams_eval get_guard_def
        validate_step_def execute_step_def extensions_step_def success_response_def
        getOperationAST_def baseHeaders_def context_choice_def
        test_config_def test_parse_def test_execute_def GET_request_def
        JSON_stringify_def indentation_def wrap_def numeral_2_eq_2)

end
